theory Spec2Isabelle
  imports Complex_Main "HOL-Library.Sublist"
begin

section \<open>JavaScript values\<close>

text \<open>
  A JavaScript number is a NaN, an infinity or a finite value. Finite values are kept as
  rationals and arithmetic on them is exact: the rounding of IEEE-754 doubles and the
  sign of zero are outside this model. Comparisons with a NaN are false, as in
  JavaScript.
\<close>

datatype jsnum = NaN | NegInf | Fin rat | PosInf

fun js_lt :: "jsnum \<Rightarrow> jsnum \<Rightarrow> bool" where
  "js_lt NaN _ = False"
| "js_lt _ NaN = False"
| "js_lt PosInf _ = False"
| "js_lt _ PosInf = True"
| "js_lt _ NegInf = False"
| "js_lt NegInf _ = True"
| "js_lt (Fin a) (Fin b) = (a < b)"

definition js_gt :: "jsnum \<Rightarrow> jsnum \<Rightarrow> bool" where
  "js_gt a b = js_lt b a"

fun js_add :: "jsnum \<Rightarrow> jsnum \<Rightarrow> jsnum" where
  "js_add NaN _ = NaN"
| "js_add _ NaN = NaN"
| "js_add PosInf NegInf = NaN"
| "js_add NegInf PosInf = NaN"
| "js_add PosInf _ = PosInf"
| "js_add _ PosInf = PosInf"
| "js_add NegInf _ = NegInf"
| "js_add _ NegInf = NegInf"
| "js_add (Fin a) (Fin b) = Fin (a + b)"

fun js_neg :: "jsnum \<Rightarrow> jsnum" where
  "js_neg NaN = NaN"
| "js_neg NegInf = PosInf"
| "js_neg PosInf = NegInf"
| "js_neg (Fin a) = Fin (- a)"

definition js_sub :: "jsnum \<Rightarrow> jsnum \<Rightarrow> jsnum" where
  "js_sub a b = js_add a (js_neg b)"

text \<open>The sign of a number: \<open>None\<close> for a NaN, otherwise -1, 0 or 1.\<close>

fun js_sign :: "jsnum \<Rightarrow> int option" where
  "js_sign NaN = None"
| "js_sign NegInf = Some (- 1)"
| "js_sign PosInf = Some 1"
| "js_sign (Fin a) = Some (if a < 0 then - 1 else if a = 0 then 0 else 1)"

fun js_mul :: "jsnum \<Rightarrow> jsnum \<Rightarrow> jsnum" where
  "js_mul (Fin a) (Fin b) = Fin (a * b)"
| "js_mul a b =
     (case (js_sign a, js_sign b) of
        (Some s, Some t) \<Rightarrow>
          (if s * t = 0 then NaN else if 0 < s * t then PosInf else NegInf)
      | _ \<Rightarrow> NaN)"

text \<open>Division; a zero divisor is the positive zero.\<close>

fun js_div :: "jsnum \<Rightarrow> jsnum \<Rightarrow> jsnum" where
  "js_div (Fin a) (Fin b) =
     (if b = 0 then (if a = 0 then NaN else if 0 < a then PosInf else NegInf)
      else Fin (a / b))"
| "js_div (Fin a) PosInf = Fin 0"
| "js_div (Fin a) NegInf = Fin 0"
| "js_div PosInf (Fin b) = (if b < 0 then NegInf else PosInf)"
| "js_div NegInf (Fin b) = (if b < 0 then PosInf else NegInf)"
| "js_div _ _ = NaN"

section \<open>Numbers and strings\<close>

text \<open>
  Decimal digits, \<open>Number.prototype.toFixed(2)\<close> and \<open>parseFloat\<close>. What the
  runtime decides by itself (the text of a number of magnitude \<open>10^21\<close> or more, of a
  number in general, the locale's text of a date, the parsing of a date string, the upper
  case and the trimming of a string that has characters outside ASCII) is a field of
  \<open>runtime\<close>, and every function that needs it takes the runtime as an argument.
\<close>

definition digit_char :: "nat \<Rightarrow> char" where
  "digit_char d = ''0123456789'' ! d"

definition is_digit :: "char \<Rightarrow> bool" where
  "is_digit c = (c \<in> set ''0123456789'')"

definition digit_val :: "char \<Rightarrow> nat" where
  "digit_val c = of_char c - 48"

fun show_nat :: "nat \<Rightarrow> string" where
  "show_nat n = (if n < 10 then [digit_char n] else show_nat (n div 10) @ [digit_char (n mod 10)])"

declare show_nat.simps [simp del]

definition digits_val :: "string \<Rightarrow> nat" where
  "digits_val ds = foldl (\<lambda>acc c. 10 * acc + digit_val c) 0 ds"

record runtime =
  Number_toString :: "rat \<Rightarrow> string"
  toLocaleString :: "int \<Rightarrow> string"
  Date_parse :: "string \<Rightarrow> int option"
  String_toUpperCase :: "string \<Rightarrow> string"
  String_trim :: "string \<Rightarrow> string"

definition toFixed2 :: "runtime \<Rightarrow> jsnum \<Rightarrow> string" where
  "toFixed2 rt x =
     (case x of
        NaN \<Rightarrow> ''NaN''
      | PosInf \<Rightarrow> ''Infinity''
      | NegInf \<Rightarrow> ''-Infinity''
      | Fin a \<Rightarrow>
          (if a < 0 then ''-'' else '''') @
          (if 10 ^ 21 \<le> \<bar>a\<bar> then Number_toString rt \<bar>a\<bar>
           else (let n = nat \<lfloor>\<bar>a\<bar> * 100 + 1 / 2\<rfloor>
                 in show_nat (n div 100) @ ''.'' @
                    [digit_char (n mod 100 div 10), digit_char (n mod 10)])))"

definition is_ws :: "char \<Rightarrow> bool" where
  "is_ws c = (c \<in> {CHR '' '', CHR 0x09, CHR 0x0A, CHR 0x0B, CHR 0x0C, CHR 0x0D})"

definition pow10 :: "int \<Rightarrow> rat" where
  "pow10 e = (if 0 \<le> e then 10 ^ nat e else 1 / 10 ^ nat (- e))"

definition exponent_part :: "string \<Rightarrow> int" where
  "exponent_part s =
     (case s of
        [] \<Rightarrow> 0
      | c # r \<Rightarrow>
          if c = CHR ''e'' \<or> c = CHR ''E'' then
            (case r of
               [] \<Rightarrow> 0
             | d # r' \<Rightarrow>
                 if d = CHR ''-'' then
                   (if takeWhile is_digit r' = [] then 0
                    else - int (digits_val (takeWhile is_digit r')))
                 else if d = CHR ''+'' then int (digits_val (takeWhile is_digit r'))
                 else int (digits_val (takeWhile is_digit r)))
          else 0)"

definition unsigned_literal :: "string \<Rightarrow> rat option" where
  "unsigned_literal s =
     (let ip = takeWhile is_digit s;
          r1 = dropWhile is_digit s;
          fp = (case r1 of [] \<Rightarrow> [] | c # r \<Rightarrow> if c = CHR ''.'' then takeWhile is_digit r else []);
          r2 = (case r1 of [] \<Rightarrow> [] | c # r \<Rightarrow> if c = CHR ''.'' then dropWhile is_digit r else r1)
      in if ip = [] \<and> fp = [] then None
         else Some (of_nat (digits_val (ip @ fp)) / 10 ^ length fp * pow10 (exponent_part r2)))"

definition parseFloat_str :: "string \<Rightarrow> jsnum" where
  "parseFloat_str s =
     (let s1 = dropWhile is_ws s;
          neg = (case s1 of [] \<Rightarrow> False | c # _ \<Rightarrow> c = CHR ''-'');
          s2 = (case s1 of [] \<Rightarrow> [] | c # r \<Rightarrow> if c = CHR ''-'' \<or> c = CHR ''+'' then r else s1)
      in if prefix ''Infinity'' s2 then (if neg then NegInf else PosInf)
         else (case unsigned_literal s2 of
                 None \<Rightarrow> NaN
               | Some v \<Rightarrow> Fin (if neg then - v else v)))"

text \<open>
  The values a request body or a stored document field can hold. Arrays and nested
  objects are left out.
\<close>

datatype jsval = Undefined | JNull | JBool bool | JNum jsnum | JStr string

text \<open>ToBoolean: what \<open>!v\<close>, \<open>if (v)\<close> and \<open>v || w\<close> test.\<close>

fun truthy :: "jsval \<Rightarrow> bool" where
  "truthy Undefined = False"
| "truthy JNull = False"
| "truthy (JBool b) = b"
| "truthy (JNum n) = (n \<noteq> NaN \<and> n \<noteq> Fin 0)"
| "truthy (JStr s) = (s \<noteq> [])"

section \<open>Orders and the sales report\<close>

text \<open>
  Modelled from the spec: the Order schema (\<open>models/Order.js\<close>), which is not among the
  sources. The spec's data model gives an order a customer identity, a delivery type, an
  address, line items (name, quantity, unit price), a delivery charge, a total amount, a
  status, a payment status and timestamps; the fields below are those, under the names the
  report and the receipt read them by. \<open>deliveryCharge\<close> may be missing (the report reads it as
  \<open>order.deliveryCharge || 0\<close>), and so may the address of a pickup order.
  \<open>createdAt\<close> is a time value: milliseconds since the epoch, UTC.
\<close>

record item =
  name :: string
  quantity :: jsnum
  price :: jsnum

record order =
  order_id :: string
  createdAt :: int
  customerName :: string
  customerEmail :: string
  orderStatus :: string
  deliveryType :: string
  address :: "string option"
  items :: "item list"
  deliveryCharge :: "jsnum option"
  totalAmount :: jsnum
  paymentStatus :: string

text \<open>\<open>orders.reduce((sum, order) => sum + order.totalAmount, 0)\<close>\<close>

definition totalSales :: "order list \<Rightarrow> jsnum" where
  "totalSales orders = foldl (\<lambda>sum order. js_add sum (totalAmount order)) (Fin 0) orders"

definition totalOrders :: "order list \<Rightarrow> nat" where
  "totalOrders orders = length orders"



definition pickupOrders :: "order list \<Rightarrow> nat" where
  "pickupOrders orders = length (filter (\<lambda>ord. deliveryType ord = ''pickup'') orders)"

definition deliveryOrders :: "order list \<Rightarrow> nat" where
  "deliveryOrders orders = length (filter (\<lambda>ord. deliveryType ord = ''delivery'') orders)"

record statusCounts =
  Pending :: nat
  Preparing :: nat
  OutForDelivery :: nat
  Delivered :: nat

definition count_status :: "string \<Rightarrow> order list \<Rightarrow> nat" where
  "count_status s orders = length (filter (\<lambda>ord. orderStatus ord = s) orders)"

definition status_counts :: "order list \<Rightarrow> statusCounts" where
  "status_counts orders =
     \<lparr> Pending = count_status ''Pending'' orders,
       Preparing = count_status ''Preparing'' orders,
       OutForDelivery = count_status ''Out for Delivery'' orders,
       Delivered = count_status ''Delivered'' orders \<rparr>"

definition four_statuses :: "string set" where
  "four_statuses = {''Pending'', ''Preparing'', ''Out for Delivery'', ''Delivered''}"

definition sum_status_counts :: "order list \<Rightarrow> nat" where
  "sum_status_counts orders =
     (let c = status_counts orders
      in Pending c + Preparing c + OutForDelivery c + Delivered c)"

text \<open>\<open>parseFloat(x.toFixed(2))\<close>, the form of every amount of the summary.\<close>

definition fixed2 :: "runtime \<Rightarrow> jsnum \<Rightarrow> jsnum" where
  "fixed2 rt x = parseFloat_str (toFixed2 rt x)"

text \<open>
  \<open>totalOrders > 0 ? parseFloat((totalSales / totalOrders).toFixed(2)) : 0\<close>
\<close>

definition averageOrderValue :: "runtime \<Rightarrow> order list \<Rightarrow> jsnum" where
  "averageOrderValue rt orders =
     (if 0 < totalOrders orders
      then fixed2 rt (js_div (totalSales orders) (Fin (of_nat (totalOrders orders))))
      else Fin 0)"



text \<open>The amount of a finite number (0 for the others), to state sums.\<close>

fun amount :: "jsnum \<Rightarrow> rat" where
  "amount (Fin a) = a"
| "amount _ = 0"

fun is_finite :: "jsnum \<Rightarrow> bool" where
  "is_finite (Fin a) = True"
| "is_finite _ = False"

text \<open>Sample data for the examples.\<close>

definition sample_order :: "string \<Rightarrow> string \<Rightarrow> rat \<Rightarrow> order" where
  "sample_order status kind amt =
     \<lparr> order_id = ''65f1c0ffee0123456789abcd'',
       createdAt = 1700000000000,
       customerName = ''Ada'',
       customerEmail = ''ada@example.org'',
       orderStatus = status,
       deliveryType = kind,
       address = (if kind = ''delivery'' then Some ''1 Main St'' else None),
       items = [\<lparr> name = ''Margherita'', quantity = Fin 1, price = Fin amt \<rparr>],
       deliveryCharge = None,
       totalAmount = Fin amt,
       paymentStatus = ''completed'' \<rparr>"

definition sample_orders :: "order list" where
  "sample_orders =
     [sample_order ''Pending'' ''pickup'' 10,
      sample_order ''Cancelled'' ''delivery'' (1001 / 100),
      sample_order ''Delivered'' ''delivery'' 10]"

section \<open>Dates\<close>

text \<open>
  A Date is its time value, milliseconds since the epoch in UTC, an integer. The functions
  are those of the ECMAScript specification of Date (Day, TimeWithinDay, DayFromYear,
  YearFromTime, MonthFromTime, DateFromTime, WeekDay, MakeTime, MakeDay, MakeDate,
  LocalTime, UTC). The time zone is the runtime's: \<open>tza t isUTC\<close> is the
  \<open>LocalTZA(t, isUTC)\<close> of the specification, the offset of local time from UTC in
  milliseconds, at the instant \<open>t\<close> when \<open>isUTC\<close> is true and for the local time
  \<open>t\<close> when it is false. The offset may change from one instant to another (daylight
  saving); where a change repeats or skips a local time, the specification takes the
  offset before the change.
  Time values stay far inside the range that TimeClip cuts off, and the cut is not
  modelled. \<open>YearFromDay\<close> computes the year of a day number from an estimate that is
  off by one at most; \<open>month_start\<close> is the day within the year on which a month starts.
\<close>

definition msPerDay :: int where
  "msPerDay = 86400000"

definition Day :: "int \<Rightarrow> int" where
  "Day t = t div msPerDay"



definition DayFromYear :: "int \<Rightarrow> int" where
  "DayFromYear y =
     365 * (y - 1970) + (y - 1969) div 4 - (y - 1901) div 100 + (y - 1601) div 400"

definition YearFromDay :: "int \<Rightarrow> int" where
  "YearFromDay d =
     (let y = 1970 + (d * 400) div 146097
      in if DayFromYear (y + 1) \<le> d then y + 1
         else if DayFromYear y \<le> d then y
         else y - 1)"







definition WeekDay :: "int \<Rightarrow> int" where
  "WeekDay t = (Day t + 4) mod 7"




type_synonym zone = "int \<Rightarrow> bool \<Rightarrow> int"

definition LocalTime :: "zone \<Rightarrow> int \<Rightarrow> int" where
  "LocalTime tza t = t + tza t True"





definition getDay :: "zone \<Rightarrow> int \<Rightarrow> int" where
  "getDay tza t = WeekDay (LocalTime tza t)"

















section \<open>Strings and conversions of request values\<close>

text \<open>
  A string is the list of its bytes in UTF-8: a byte below 128 is an ASCII character, and
  every other character is a sequence of bytes from 128 on. \<open>toUpperCase\<close> and
  \<open>trim\<close> are computed here on the strings of ASCII characters, where the letters are
  a to z and the white space is that of \<open>is_ws\<close>; on a string with other characters
  (letters such as \<open>e\<close> with an accent, the no-break space) they are what the runtime
  gives, by the case mapping and the white space of Unicode.
\<close>

definition upper_char :: "char \<Rightarrow> char" where
  "upper_char c =
     (case map_of (zip ''abcdefghijklmnopqrstuvwxyz'' ''ABCDEFGHIJKLMNOPQRSTUVWXYZ'') c of
        Some u \<Rightarrow> u
      | None \<Rightarrow> c)"

definition is_ascii :: "char \<Rightarrow> bool" where
  "is_ascii c = (\<not> digit7 c)"

definition toUpperCase :: "runtime \<Rightarrow> string \<Rightarrow> string" where
  "toUpperCase rt s =
     (if list_all is_ascii s then map upper_char s else String_toUpperCase rt s)"

definition trim :: "runtime \<Rightarrow> string \<Rightarrow> string" where
  "trim rt s =
     (if list_all is_ascii s then rev (dropWhile is_ws (rev (dropWhile is_ws s)))
      else String_trim rt s)"

text \<open>
  A runtime for the examples. Its numbers and dates print as natural numbers, its
  \<open>Date.parse\<close> reads a string of digits as a time value, and of the letters outside
  ASCII its \<open>toUpperCase\<close> knows the \<open>e\<close> with an acute accent (the bytes C3 A9,
  in upper case C3 89).
\<close>

fun sample_upper :: "string \<Rightarrow> string" where
  "sample_upper (c # d # cs) =
     (if c = CHR 0xC3 \<and> d = CHR 0xA9 then CHR 0xC3 # CHR 0x89 # sample_upper cs
      else upper_char c # sample_upper (d # cs))"
| "sample_upper [c] = [upper_char c]"
| "sample_upper [] = []"

definition sample_runtime :: runtime where
  "sample_runtime =
     \<lparr> Number_toString = (\<lambda>a. show_nat (nat \<lfloor>a\<rfloor>)),
       toLocaleString = (\<lambda>t. show_nat (nat t)),
       Date_parse = (\<lambda>s. if s \<noteq> [] \<and> list_all is_digit s then Some (int (digits_val s)) else None),
       String_toUpperCase = sample_upper,
       String_trim = (\<lambda>s. rev (dropWhile is_ws (rev (dropWhile is_ws s)))) \<rparr>"

text \<open>
  \<open>parseFloat(v)\<close> parses the text of \<open>v\<close>. The text of a number parses back to the
  number; the texts \<open>true\<close>, \<open>false\<close>, \<open>null\<close> and \<open>undefined\<close> give NaN.
\<close>

fun parseFloat :: "jsval \<Rightarrow> jsnum" where
  "parseFloat (JStr s) = parseFloat_str s"
| "parseFloat (JNum n) = n"
| "parseFloat _ = NaN"

text \<open>
  \<open>new Date(v)\<close> with one argument: a string goes through \<open>Date.parse\<close> (the runtime's),
  anything else through ToNumber and TimeClip. \<open>None\<close> is the invalid date, whose
  \<open>getTime()\<close> is NaN.
\<close>

definition TimeClip :: "jsnum \<Rightarrow> int option" where
  "TimeClip n =
     (case n of
        Fin a \<Rightarrow>
          (let t = (if a < 0 then - \<lfloor>- a\<rfloor> else \<lfloor>a\<rfloor>)
           in if \<bar>a\<bar> \<le> 8640000000000000 then Some t else None)
      | _ \<Rightarrow> None)"

fun new_Date :: "runtime \<Rightarrow> jsval \<Rightarrow> int option" where
  "new_Date rt (JStr s) = Date_parse rt s"
| "new_Date rt (JNum n) = TimeClip n"
| "new_Date rt (JBool b) = Some (if b then 1 else 0)"
| "new_Date rt JNull = Some 0"
| "new_Date rt Undefined = None"

text \<open>The text of a number, for a value cast to a string.\<close>

fun num_toString :: "runtime \<Rightarrow> jsnum \<Rightarrow> string" where
  "num_toString rt NaN = ''NaN''"
| "num_toString rt PosInf = ''Infinity''"
| "num_toString rt NegInf = ''-Infinity''"
| "num_toString rt (Fin a) = Number_toString rt a"

section \<open>Offers\<close>

text \<open>
  The schema of \<open>models/Offer.js\<close>. \<open>offer_id\<close> is \<open>_id\<close>; the dates are time
  values; \<open>isActive\<close> is \<open>None\<close> when the stored value is null; \<open>offer_createdAt\<close> and
  \<open>offer_updatedAt\<close> are the schema's timestamps.
\<close>

record offer =
  offer_id :: nat
  title :: string
  description :: string
  discount :: jsnum
  code :: string
  validFrom :: int
  validUntil :: int
  isActive :: "bool option"
  minOrderAmount :: jsnum
  offer_image :: string
  cloudinary_id :: string
  offer_createdAt :: int
  offer_updatedAt :: int

text \<open>
  A request: the parsed body (a field the body does not have reads as \<open>undefined\<close>) and
  the uploaded file, if any. The body comes from the multipart parser (every field a
  string) or from the JSON parser (strings, numbers, booleans, null).
\<close>

record upload_file =
  mimetype :: string
  buffer :: string

record request =
  req_body :: "string \<Rightarrow> jsval"
  req_file :: "upload_file option"

datatype upload_result = Uploaded string string | UploadError string

text \<open>
  What a handler gets from outside: the runtime, the clock, the answer of the image host to
  an upload, and the text Mongoose gives a failed validator of a path.
\<close>

record env =
  runtime_of :: runtime
  clock :: int
  cloudinary_upload :: "upload_file \<Rightarrow> upload_result"
  validator_message :: "string \<Rightarrow> string"

datatype payload = Message string | OfferJson offer | OffersJson "offer list"

datatype response = Response nat payload

fun status :: "response \<Rightarrow> nat" where
  "status (Response s p) = s"

datatype db_error = ValidationError "string list" | DuplicateKey

text \<open>
  The validators of the schema on the paths a document sets: \<open>required\<close> on the texts
  (an empty string fails it), the cast of a number (NaN fails it), \<open>min: 0\<close> and
  \<open>max: 100\<close> on the discount. The result lists the failing paths.
\<close>

definition validate_offer :: "offer \<Rightarrow> string list" where
  "validate_offer doc =
     (if title doc = [] then [''title''] else []) @
     (if description doc = [] then [''description''] else []) @
     (if discount doc = NaN \<or> js_lt (discount doc) (Fin 0) \<or> js_gt (discount doc) (Fin 100)
      then [''discount''] else []) @
     (if code doc = [] then [''code''] else []) @
     (if minOrderAmount doc = NaN then [''minOrderAmount''] else [])"

definition fresh_id :: "offer list \<Rightarrow> nat" where
  "fresh_id store = Suc (fold max (map offer_id store) 0)"

text \<open>
  \<open>Offer.create\<close>: the setters of the schema (\<open>uppercase\<close> on the code), the defaults
  (\<open>isActive\<close>), the timestamps, validation, then the insert, which the unique index on
  \<open>code\<close> refuses for a code the collection already has.
\<close>

definition Offer_create ::
  "env \<Rightarrow> offer list \<Rightarrow> string \<Rightarrow> string \<Rightarrow> jsnum \<Rightarrow> string \<Rightarrow> int \<Rightarrow> int \<Rightarrow> jsnum \<Rightarrow> string \<Rightarrow> string
     \<Rightarrow> db_error + offer \<times> offer list" where
  "Offer_create e store t d n c vf vu m img cid =
     (let doc = \<lparr> offer_id = fresh_id store, title = t, description = d, discount = n,
                   code = toUpperCase (runtime_of e) c, validFrom = vf, validUntil = vu,
                   isActive = Some True, minOrderAmount = m, offer_image = img,
                   cloudinary_id = cid, offer_createdAt = clock e, offer_updatedAt = clock e \<rparr>
      in if validate_offer doc \<noteq> [] then Inl (ValidationError (validate_offer doc))
         else if \<exists>x \<in> set store. code x = code doc then Inl DuplicateKey
         else Inr (doc, store @ [doc]))"

text \<open>
  The queries of the handlers: \<open>Offer.findById(id)\<close>, \<open>Offer.findOne({code: c})\<close> and
  \<open>Offer.findOne({code: c, _id: {$ne: id}})\<close>.
\<close>

definition Offer_findById :: "offer list \<Rightarrow> nat \<Rightarrow> offer option" where
  "Offer_findById store ident = find (\<lambda>x. offer_id x = ident) store"

definition Offer_findOne_code :: "offer list \<Rightarrow> string \<Rightarrow> offer option" where
  "Offer_findOne_code store c = find (\<lambda>x. code x = c) store"

definition Offer_findOne_code_ne :: "offer list \<Rightarrow> string \<Rightarrow> nat \<Rightarrow> offer option" where
  "Offer_findOne_code_ne store c ident = find (\<lambda>x. code x = c \<and> offer_id x \<noteq> ident) store"

text \<open>\<open>Object.values(error.errors).map(err => err.message).join(', ')\<close>\<close>

fun join_messages :: "string list \<Rightarrow> string" where
  "join_messages [] = []"
| "join_messages [m] = m"
| "join_messages (m # ms) = m @ '', '' @ join_messages ms"

text \<open>The image upload of both handlers: \<open>Inl\<close> is the 500 response of its catch block.\<close>

definition upload_image :: "env \<Rightarrow> upload_file \<Rightarrow> response + string \<times> string" where
  "upload_image e f =
     (case cloudinary_upload e f of
        UploadError msg \<Rightarrow> Inl (Response 500 (Message (''Failed to upload image: '' @ msg)))
      | Uploaded secure_url public_id \<Rightarrow>
          if secure_url = []
          then Inl (Response 500 (Message
                 (''Failed to upload image: '' @ ''Failed to upload image to Cloudinary'')))
          else Inr (secure_url, public_id))"

text \<open>
  \<open>POST /api/offers\<close>. A call of \<open>toUpperCase\<close> or \<open>trim\<close> on a value that is not a
  string throws a TypeError, which the outer catch block answers with status 500.
\<close>

definition createOffer :: "env \<Rightarrow> offer list \<Rightarrow> request \<Rightarrow> response \<times> offer list" where
  "createOffer e store req =
     (let title = req_body req ''title'';
          description = req_body req ''description'';
          discount = req_body req ''discount'';
          code = req_body req ''code'';
          validFrom = req_body req ''validFrom'';
          validUntil = req_body req ''validUntil'';
          minOrderAmount = req_body req ''minOrderAmount''
      in
      if \<not> truthy title \<or> \<not> truthy description \<or> \<not> truthy discount \<or> \<not> truthy code
         \<or> \<not> truthy validFrom \<or> \<not> truthy validUntil
      then (Response 400 (Message ''Please provide all required fields''), store)
      else
      let discountNum = parseFloat discount in
      if discountNum = NaN \<or> js_lt discountNum (Fin 0) \<or> js_gt discountNum (Fin 100)
      then (Response 400 (Message ''Discount must be a number between 0 and 100''), store)
      else
      let fromDate = new_Date (runtime_of e) validFrom;
          untilDate = new_Date (runtime_of e) validUntil in
      (case (fromDate, untilDate) of
         (Some fromTime, Some untilTime) \<Rightarrow>
           if untilTime \<le> fromTime
           then (Response 400 (Message ''Valid until date must be after valid from date''), store)
           else
           (case code of
              JStr c \<Rightarrow>
                if Offer_findOne_code store (toUpperCase (runtime_of e) c) \<noteq> None
                then (Response 400 (Message ''Offer code already exists''), store)
                else
                (case (case req_file req of
                         None \<Rightarrow> Inr ([], [])
                       | Some f \<Rightarrow> upload_image e f) of
                   Inl failed \<Rightarrow> (failed, store)
                 | Inr (imageUrl, cloudinaryId) \<Rightarrow>
                     (case (title, description) of
                        (JStr t, JStr d) \<Rightarrow>
                          (case Offer_create e store (trim (runtime_of e) t)
                                  (trim (runtime_of e) d) discountNum
                                  (trim (runtime_of e) (toUpperCase (runtime_of e) c))
                                  fromTime untilTime
                                  (if truthy minOrderAmount \<and> minOrderAmount \<noteq> JStr []
                                   then parseFloat minOrderAmount else Fin 0)
                                  imageUrl cloudinaryId of
                             Inr (doc, store') \<Rightarrow> (Response 201 (OfferJson doc), store')
                           | Inl (ValidationError paths) \<Rightarrow>
                               (let messages = join_messages (map (validator_message e) paths)
                                in (Response 400 (Message
                                      (if messages = [] then ''Validation error'' else messages)),
                                    store))
                           | Inl DuplicateKey \<Rightarrow>
                               (Response 400 (Message ''Offer code already exists''), store))
                      | (JStr t, _) \<Rightarrow>
                          (Response 500 (Message ''description.trim is not a function''), store)
                      | _ \<Rightarrow> (Response 500 (Message ''title.trim is not a function''), store)))
            | _ \<Rightarrow> (Response 500 (Message ''code.toUpperCase is not a function''), store))
       | _ \<Rightarrow> (Response 400 (Message ''Invalid date format''), store)))"

text \<open>
  The casts of Mongoose when a path is assigned: a string path takes the text of a number
  or a boolean; a boolean path takes the values below and refuses the others (\<open>None\<close>).
\<close>

fun cast_String :: "runtime \<Rightarrow> jsval \<Rightarrow> string" where
  "cast_String rt (JStr s) = s"
| "cast_String rt (JNum n) = num_toString rt n"
| "cast_String rt (JBool b) = (if b then ''true'' else ''false'')"
| "cast_String rt _ = []"

fun cast_Boolean :: "jsval \<Rightarrow> bool option option" where
  "cast_Boolean (JBool b) = Some (Some b)"
| "cast_Boolean JNull = Some None"
| "cast_Boolean (JStr s) =
     (if s = ''true'' \<or> s = ''1'' \<or> s = ''yes'' then Some (Some True)
      else if s = ''false'' \<or> s = ''0'' \<or> s = ''no'' then Some (Some False)
      else None)"
| "cast_Boolean (JNum n) =
     (if n = Fin 1 then Some (Some True) else if n = Fin 0 then Some (Some False) else None)"
| "cast_Boolean Undefined = Some None"

text \<open>
  \<open>PUT /api/offers/:id\<close>, first the assignments \<open>if (title) offer.title = title\<close>,
  ..., \<open>if (minOrderAmount !== undefined) offer.minOrderAmount = parseFloat(minOrderAmount)\<close>
  of the body's fields to the document found (the code goes through \<open>toUpperCase\<close> in
  the handler and again in the \<open>uppercase\<close> setter of the schema).
  \<open>patch_fields\<close> is the document after them,
  each path with the value assigned or, where the condition of its assignment fails, the
  one it had (which it also keeps when the value does not cast: the document is not saved
  then). \<open>patch_errors\<close> lists the assigned paths whose value the schema refuses at
  \<open>save()\<close>: an invalid date, a NaN, a boolean that does not cast, a discount outside
  0..100.
\<close>

definition patch_fields :: "runtime \<Rightarrow> (string \<Rightarrow> jsval) \<Rightarrow> offer \<Rightarrow> offer" where
  "patch_fields rt b doc =
     doc \<lparr>
       title := (if truthy (b ''title'') then cast_String rt (b ''title'') else title doc),
       description :=
         (if truthy (b ''description'') then cast_String rt (b ''description'')
          else description doc),
       discount :=
         (if b ''discount'' \<noteq> Undefined then parseFloat (b ''discount'') else discount doc),
       code :=
         (case b ''code'' of
            JStr c \<Rightarrow> if c \<noteq> [] then toUpperCase rt (toUpperCase rt c) else code doc
          | _ \<Rightarrow> code doc),
       validFrom :=
         (if truthy (b ''validFrom'')
          then (case new_Date rt (b ''validFrom'') of Some t \<Rightarrow> t | None \<Rightarrow> validFrom doc)
          else validFrom doc),
       validUntil :=
         (if truthy (b ''validUntil'')
          then (case new_Date rt (b ''validUntil'') of Some t \<Rightarrow> t | None \<Rightarrow> validUntil doc)
          else validUntil doc),
       isActive :=
         (if b ''isActive'' \<noteq> Undefined
          then (case cast_Boolean (b ''isActive'') of Some v \<Rightarrow> v | None \<Rightarrow> isActive doc)
          else isActive doc),
       minOrderAmount :=
         (if b ''minOrderAmount'' \<noteq> Undefined then parseFloat (b ''minOrderAmount'')
          else minOrderAmount doc) \<rparr>"

definition patch_errors :: "runtime \<Rightarrow> (string \<Rightarrow> jsval) \<Rightarrow> string list" where
  "patch_errors rt b =
     (if b ''discount'' \<noteq> Undefined \<and>
         (parseFloat (b ''discount'') = NaN \<or> js_lt (parseFloat (b ''discount'')) (Fin 0)
          \<or> js_gt (parseFloat (b ''discount'')) (Fin 100))
      then [''discount''] else []) @
     (if truthy (b ''validFrom'') \<and> new_Date rt (b ''validFrom'') = None
      then [''validFrom''] else []) @
     (if truthy (b ''validUntil'') \<and> new_Date rt (b ''validUntil'') = None
      then [''validUntil''] else []) @
     (if b ''isActive'' \<noteq> Undefined \<and> cast_Boolean (b ''isActive'') = None
      then [''isActive''] else []) @
     (if b ''minOrderAmount'' \<noteq> Undefined \<and> parseFloat (b ''minOrderAmount'') = NaN
      then [''minOrderAmount''] else [])"

text \<open>
  \<open>offer.save()\<close>: validation of the assigned paths, the unique index on \<open>code\<close>, and
  the \<open>updatedAt\<close> timestamp of a document that changed.
\<close>

definition Offer_save ::
  "env \<Rightarrow> offer list \<Rightarrow> string list \<Rightarrow> offer \<Rightarrow> offer \<Rightarrow> db_error + offer \<times> offer list" where
  "Offer_save e store errors old doc =
     (if errors \<noteq> [] then Inl (ValidationError errors)
      else if \<exists>x \<in> set store. offer_id x \<noteq> offer_id doc \<and> code x = code doc then Inl DuplicateKey
      else (let saved = (if doc = old then doc else doc \<lparr> offer_updatedAt := clock e \<rparr>)
            in Inr (saved, map (\<lambda>x. if offer_id x = offer_id doc then saved else x) store)))"

text \<open>
  The block \<open>if (code) { ... }\<close> of the update: the response it returns with, if any.
\<close>

definition code_conflict ::
  "runtime \<Rightarrow> offer list \<Rightarrow> offer \<Rightarrow> jsval \<Rightarrow> response option" where
  "code_conflict rt store doc v =
     (case v of
        JStr c \<Rightarrow>
          if c \<noteq> [] \<and> Offer_findOne_code_ne store (toUpperCase rt c) (offer_id doc) \<noteq> None
          then Some (Response 400 (Message ''Offer code already exists''))
          else None
      | _ \<Rightarrow>
          if truthy v then Some (Response 500 (Message ''code.toUpperCase is not a function''))
          else None)"

definition updateOffer ::
  "env \<Rightarrow> offer list \<Rightarrow> nat \<Rightarrow> request \<Rightarrow> response \<times> offer list" where
  "updateOffer e store ident req =
     (case Offer_findById store ident of
        None \<Rightarrow> (Response 404 (Message ''Offer not found''), store)
      | Some offer \<Rightarrow>
          (case code_conflict (runtime_of e) store offer (req_body req ''code'') of
             Some refused \<Rightarrow> (refused, store)
           | None \<Rightarrow>
               (case (case req_file req of
                        None \<Rightarrow> Inr (offer_image offer, cloudinary_id offer)
                      | Some f \<Rightarrow> upload_image e f) of
                  Inl failed \<Rightarrow> (failed, store)
                | Inr (imageUrl, cloudinaryId) \<Rightarrow>
                    (let doc = (patch_fields (runtime_of e) (req_body req) offer)
                                 \<lparr> offer_image := imageUrl, cloudinary_id := cloudinaryId \<rparr>
                     in case Offer_save e store (patch_errors (runtime_of e) (req_body req)) offer doc of
                          Inr (saved, store') \<Rightarrow> (Response 200 (OfferJson saved), store')
                        | Inl (ValidationError paths) \<Rightarrow>
                            (Response 500
                               (Message (join_messages (map (validator_message e) paths))),
                             store)
                        | Inl DuplicateKey \<Rightarrow>
                            (Response 500 (Message ''E11000 duplicate key error''), store)))))"


text \<open>
  \<open>GET /api/offers\<close>:
  \<open>Offer.find({isActive: true, validFrom: {$lte: now}, validUntil: {$gte: now}})
  .sort({createdAt: -1})\<close>
\<close>

definition active_offers :: "int \<Rightarrow> offer list \<Rightarrow> offer list" where
  "active_offers now store =
     sort_key (\<lambda>x. - offer_createdAt x)
       (filter (\<lambda>x. isActive x = Some True \<and> validFrom x \<le> now \<and> now \<le> validUntil x) store)"

definition getActiveOffers :: "int \<Rightarrow> offer list \<Rightarrow> response" where
  "getActiveOffers now store = Response 200 (OffersJson (active_offers now store))"


text \<open>
  The checks of the create handler other than those on the discount and on the dates, as
  conditions on a request: a title and a description that are strings with something left
  after trimming, a string code that is stored as something (upper-cased, trimmed, and
  upper-cased again by the schema) and that no stored offer has, an
  upload (if a file came) that the image host accepts, and a minimum order amount that is
  absent or parses.
\<close>

definition text_given :: "runtime \<Rightarrow> jsval \<Rightarrow> bool" where
  "text_given rt v = (case v of JStr s \<Rightarrow> trim rt s \<noteq> [] | _ \<Rightarrow> False)"

definition code_free :: "runtime \<Rightarrow> offer list \<Rightarrow> jsval \<Rightarrow> bool" where
  "code_free rt store v =
     (case v of
        JStr c \<Rightarrow>
          toUpperCase rt (trim rt (toUpperCase rt c)) \<noteq> []
          \<and> Offer_findOne_code store (toUpperCase rt c) = None
          \<and> Offer_findOne_code store (toUpperCase rt (trim rt (toUpperCase rt c))) = None
      | _ \<Rightarrow> False)"

definition upload_accepted :: "env \<Rightarrow> request \<Rightarrow> bool" where
  "upload_accepted e req =
     (case req_file req of
        None \<Rightarrow> True
      | Some f \<Rightarrow> (case upload_image e f of Inl failed \<Rightarrow> False | Inr uploaded \<Rightarrow> True))"

definition amount_given :: "jsval \<Rightarrow> bool" where
  "amount_given v = (if truthy v \<and> v \<noteq> JStr [] then parseFloat v \<noteq> NaN else True)"

definition other_checks_pass :: "env \<Rightarrow> offer list \<Rightarrow> request \<Rightarrow> bool" where
  "other_checks_pass e store req =
     (text_given (runtime_of e) (req_body req ''title'')
      \<and> text_given (runtime_of e) (req_body req ''description'')
      \<and> code_free (runtime_of e) store (req_body req ''code'') \<and> upload_accepted e req
      \<and> amount_given (req_body req ''minOrderAmount''))"

text \<open>The discount check and the date checks of the create handler, as conditions.\<close>

definition discount_in_range :: "jsval \<Rightarrow> bool" where
  "discount_in_range v =
     (case parseFloat v of Fin d \<Rightarrow> 0 \<le> d \<and> d \<le> 100 | _ \<Rightarrow> False)"

definition dates_in_order :: "runtime \<Rightarrow> jsval \<Rightarrow> jsval \<Rightarrow> bool" where
  "dates_in_order rt vf vu =
     (case (new_Date rt vf, new_Date rt vu) of
        (Some fromTime, Some untilTime) \<Rightarrow> fromTime < untilTime
      | _ \<Rightarrow> False)"



text \<open>Sample requests for the examples.\<close>

definition sample_env :: env where
  "sample_env =
     \<lparr> runtime_of = sample_runtime, clock = 1700000000000,
       cloudinary_upload = (\<lambda>f. Uploaded ''https://img.example/offer.png'' ''american_pizza/offer''),
       validator_message = (\<lambda>p. ''Path '' @ p @ '' is invalid'') \<rparr>"

definition sample_body :: "jsval \<Rightarrow> string \<Rightarrow> string \<Rightarrow> string \<Rightarrow> string \<Rightarrow> jsval" where
  "sample_body d c vf vu k =
     (if k = ''title'' then JStr ''Lunch deal''
      else if k = ''description'' then JStr ''Ten percent off at noon''
      else if k = ''discount'' then d
      else if k = ''code'' then JStr c
      else if k = ''validFrom'' then JStr vf
      else if k = ''validUntil'' then JStr vu
      else Undefined)"

definition sample_request :: "jsval \<Rightarrow> string \<Rightarrow> string \<Rightarrow> string \<Rightarrow> request" where
  "sample_request d c vf vu = \<lparr> req_body = sample_body d c vf vu, req_file = None \<rparr>"

definition sample_offer :: "nat \<Rightarrow> string \<Rightarrow> int \<Rightarrow> int \<Rightarrow> offer" where
  "sample_offer i c vf vu =
     \<lparr> offer_id = i, title = ''Lunch deal'', description = ''Ten percent off at noon'',
       discount = Fin 10, code = c, validFrom = vf, validUntil = vu, isActive = Some True,
       minOrderAmount = Fin 0, offer_image = [], cloudinary_id = [],
       offer_createdAt = vf, offer_updatedAt = vf \<rparr>"



definition single_field :: "string \<Rightarrow> jsval \<Rightarrow> request" where
  "single_field k v = \<lparr> req_body = (\<lambda>k'. if k' = k then v else Undefined), req_file = None \<rparr>"

text \<open>
  A request of the multipart form (the values are strings) but for the minimum amount,
  which is a number: a title, a discount, a code, an end date, the active flag and the
  minimum amount, and no description, start date or file.
\<close>

definition sample_patch :: request where
  "sample_patch =
     \<lparr> req_body = (\<lambda>k.
         if k = ''title'' then JStr ''Dinner deal''
         else if k = ''discount'' then JStr ''25''
         else if k = ''code'' then JStr ''dinner''
         else if k = ''validUntil'' then JStr ''1900000000000''
         else if k = ''isActive'' then JStr ''false''
         else if k = ''minOrderAmount'' then JNum (Fin 15)
         else Undefined),
       req_file = None \<rparr>"

definition sample_offers :: "offer list" where
  "sample_offers =
     [sample_offer 1 ''SAVE10'' 1690000000000 1800000000000,
      sample_offer 2 ''LUNCH'' 1690000000000 1800000000000]"

section \<open>The order receipt\<close>

text \<open>
  \<open>generateOrderPDF\<close> is one template literal: fixed texts with the values of the order
  put between them. \<open>receipt_text_0\<close> to \<open>receipt_text_11\<close> are the fixed texts, in
  the order of the template, character for character.
\<close>

definition receipt_text_0 :: string where
  \<open>receipt_text_0 =
     ''\<newline>'' @
     ''<!DOCTYPE html>\<newline>'' @
     ''<html>\<newline>'' @
     ''<head>\<newline>'' @
     ''  <title>Order Receipt - ''\<close>

definition receipt_text_1 :: string where
  \<open>receipt_text_1 =
     ''</title>\<newline>'' @
     ''  <style>\<newline>'' @
     ''    body {\<newline>'' @
     ''      font-family: Arial, sans-serif;\<newline>'' @
     ''      max-width: 800px;\<newline>'' @
     ''      margin: 0 auto;\<newline>'' @
     ''      padding: 20px;\<newline>'' @
     ''    }\<newline>'' @
     ''    .header {\<newline>'' @
     ''      text-align: center;\<newline>'' @
     ''      border-bottom: 2px solid #000;\<newline>'' @
     ''      padding-bottom: 20px;\<newline>'' @
     ''      margin-bottom: 20px;\<newline>'' @
     ''    }\<newline>'' @
     ''    .order-info {\<newline>'' @
     ''      margin-bottom: 20px;\<newline>'' @
     ''    }\<newline>'' @
     ''    .order-info h2 {\<newline>'' @
     ''      color: #333;\<newline>'' @
     ''    }\<newline>'' @
     ''    table {\<newline>'' @
     ''      width: 100%;\<newline>'' @
     ''      border-collapse: collapse;\<newline>'' @
     ''      margin: 20px 0;\<newline>'' @
     ''    }\<newline>'' @
     ''    th, td {\<newline>'' @
     ''      border: 1px solid #ddd;\<newline>'' @
     ''      padding: 12px;\<newline>'' @
     ''      text-align: left;\<newline>'' @
     ''    }\<newline>'' @
     ''    th {\<newline>'' @
     ''      background-color: #f2f2f2;\<newline>'' @
     ''      font-weight: bold;\<newline>'' @
     ''    }\<newline>'' @
     ''    .total {\<newline>'' @
     ''      text-align: right;\<newline>'' @
     ''      font-size: 18px;\<newline>'' @
     ''      font-weight: bold;\<newline>'' @
     ''      margin-top: 20px;\<newline>'' @
     ''    }\<newline>'' @
     ''    .footer {\<newline>'' @
     ''      margin-top: 40px;\<newline>'' @
     ''      text-align: center;\<newline>'' @
     ''      color: #666;\<newline>'' @
     ''      font-size: 12px;\<newline>'' @
     ''    }\<newline>'' @
     ''  </style>\<newline>'' @
     ''</head>\<newline>'' @
     ''<body>\<newline>'' @
     ''  <div class="header">\<newline>'' @
     ''    <h1>American Pizza</h1>\<newline>'' @
     ''    <p>Order Receipt</p>\<newline>'' @
     ''  </div>\<newline>'' @
     ''  \<newline>'' @
     ''  <div class="order-info">\<newline>'' @
     ''    <h2>Order Information</h2>\<newline>'' @
     ''    <p><strong>Order ID:</strong> ''\<close>

definition receipt_text_2 :: string where
  \<open>receipt_text_2 =
     ''</p>\<newline>'' @
     ''    <p><strong>Date:</strong> ''\<close>

definition receipt_text_3 :: string where
  \<open>receipt_text_3 =
     ''</p>\<newline>'' @
     ''    <p><strong>Customer:</strong> ''\<close>

definition receipt_text_4 :: string where
  \<open>receipt_text_4 =
     ''</p>\<newline>'' @
     ''    <p><strong>Email:</strong> ''\<close>

definition receipt_text_5 :: string where
  \<open>receipt_text_5 =
     ''</p>\<newline>'' @
     ''    <p><strong>Status:</strong> ''\<close>

definition receipt_text_6 :: string where
  \<open>receipt_text_6 =
     ''</p>\<newline>'' @
     ''    <p><strong>Type:</strong> ''\<close>

definition receipt_text_7 :: string where
  \<open>receipt_text_7 =
     ''</p>\<newline>'' @
     ''    ''\<close>

definition receipt_text_8 :: string where
  \<open>receipt_text_8 =
     ''\<newline>'' @
     ''  </div>\<newline>'' @
     ''  \<newline>'' @
     ''  <h2>Order Items</h2>\<newline>'' @
     ''  <table>\<newline>'' @
     ''    <thead>\<newline>'' @
     ''      <tr>\<newline>'' @
     ''        <th>Item</th>\<newline>'' @
     ''        <th>Quantity</th>\<newline>'' @
     ''        <th>Price</th>\<newline>'' @
     ''        <th>Total</th>\<newline>'' @
     ''      </tr>\<newline>'' @
     ''    </thead>\<newline>'' @
     ''    <tbody>\<newline>'' @
     ''      ''\<close>

definition receipt_text_9 :: string where
  \<open>receipt_text_9 =
     ''\<newline>'' @
     ''    </tbody>\<newline>'' @
     ''  </table>\<newline>'' @
     ''  \<newline>'' @
     ''  <div class="total">\<newline>'' @
     ''    ''\<close>

definition receipt_text_10 :: string where
  \<open>receipt_text_10 =
     ''\<newline>'' @
     ''    <p>Total Amount: $''\<close>

definition receipt_text_11 :: string where
  \<open>receipt_text_11 =
     ''</p>\<newline>'' @
     ''  </div>\<newline>'' @
     ''  \<newline>'' @
     ''  <div class="footer">\<newline>'' @
     ''    <p>Thank you for your order!</p>\<newline>'' @
     ''    <p>American Pizza - Bahnhof str.119, 47137 Duisburg</p>\<newline>'' @
     ''    <p>Contact: 015213759078 | kenkeswary11@icloud.com</p>\<newline>'' @
     ''  </div>\<newline>'' @
     ''</body>\<newline>'' @
     ''</html>\<newline>'' @
     ''  ''\<close>

text \<open>\<open>s.slice(-k)\<close>: the last \<open>k\<close> characters of a string, all of a shorter one.\<close>

definition slice_last :: "nat \<Rightarrow> string \<Rightarrow> string" where
  "slice_last k s = drop (length s - k) s"

text \<open>
  The three substitutions that are templates themselves: the address line, a row of the
  table of items, and the lines of the subtotal and the delivery charge.
\<close>

definition address_line :: "order \<Rightarrow> string" where
  "address_line order =
     (case address order of
        Some a \<Rightarrow>
          if deliveryType order = ''delivery'' \<and> a \<noteq> []
          then ''<p><strong>Address:</strong> '' @ a @ ''</p>'' else []
      | None \<Rightarrow> [])"

definition item_row :: "runtime \<Rightarrow> item \<Rightarrow> string" where
  "item_row rt item =
     ''\<newline>        <tr>\<newline>          <td>'' @ name item @
     ''</td>\<newline>          <td>'' @ num_toString rt (quantity item) @
     ''</td>\<newline>          <td>$'' @ toFixed2 rt (price item) @
     ''</td>\<newline>          <td>$'' @ toFixed2 rt (js_mul (price item) (quantity item)) @
     ''</td>\<newline>        </tr>\<newline>      ''"

definition totals_lines :: "runtime \<Rightarrow> order \<Rightarrow> string" where
  "totals_lines rt order =
     (case deliveryCharge order of
        Some c \<Rightarrow>
          if js_gt c (Fin 0)
          then ''<p>Subtotal: $'' @ toFixed2 rt (js_sub (totalAmount order) c) @
               ''</p>\<newline>    <p>Delivery Charge: $'' @ toFixed2 rt c @ ''</p>''
          else []
      | None \<Rightarrow> [])"

definition generateOrderPDF :: "runtime \<Rightarrow> order \<Rightarrow> string" where
  "generateOrderPDF rt order =
     receipt_text_0 @ slice_last 8 (order_id order) @
     receipt_text_1 @ order_id order @
     receipt_text_2 @ toLocaleString rt (createdAt order) @
     receipt_text_3 @ customerName order @
     receipt_text_4 @ customerEmail order @
     receipt_text_5 @ orderStatus order @
     receipt_text_6 @ (if deliveryType order = ''pickup'' then ''Pickup'' else ''Delivery'') @
     receipt_text_7 @ address_line order @
     receipt_text_8 @ concat (map (item_row rt) (items order)) @
     receipt_text_9 @ totals_lines rt order @
     receipt_text_10 @ toFixed2 rt (totalAmount order) @
     receipt_text_11"

text \<open>
  Notions to state what a receipt contains: \<open>occs n s\<close> is the number of places of
  \<open>s\<close> at which the text \<open>n\<close> starts, and a plain text is one without the character
  \<open><\<close>, which cannot open a tag.
\<close>

fun occs :: "string \<Rightarrow> string \<Rightarrow> nat" where
  "occs n [] = 0"
| "occs n (c # cs) = (if prefix n (c # cs) then 1 else 0) + occs n cs"

definition plain :: "string \<Rightarrow> bool" where
  "plain s = (CHR ''<'' \<notin> set s)"

definition plain_runtime :: "runtime \<Rightarrow> bool" where
  "plain_runtime rt = ((\<forall>a. plain (Number_toString rt a)) \<and> (\<forall>t. plain (toLocaleString rt t)))"

definition plain_order :: "order \<Rightarrow> bool" where
  "plain_order order =
     (plain (order_id order) \<and> plain (customerName order) \<and> plain (customerEmail order)
      \<and> plain (orderStatus order)
      \<and> (case address order of Some a \<Rightarrow> plain a | None \<Rightarrow> True)
      \<and> (\<forall>item \<in> set (items order). plain (name item)))"

text \<open>
  A fixed text \<open>a\<close> is clean for \<open>n\<close> when no occurrence of \<open>n\<close> can start in
  \<open>a\<close> and end after it: from every place of \<open>a\<close> on, either \<open>n\<close> is there in full
  or it differs from what is there.
\<close>

fun clean :: "string \<Rightarrow> string \<Rightarrow> bool" where
  "clean n [] = True"
| "clean n (c # cs) = ((prefix n (c # cs) \<or> \<not> prefix (c # cs) n) \<and> clean n cs)"

text \<open>
  Orders to run the receipt on: one for delivery, of two pizzas at 12.00 and three drinks
  at 2.50 with a delivery charge of 3.00, and one for pickup whose customer name is the
  text of an address line.
\<close>

definition sample_receipt_order :: order where
  "sample_receipt_order =
     (sample_order ''Delivered'' ''delivery'' 12)
       \<lparr> items := [\<lparr> name = ''Margherita'', quantity = Fin 2, price = Fin 12 \<rparr>,
                   \<lparr> name = ''Cola'', quantity = Fin 3, price = Fin (5 / 2) \<rparr>],
         deliveryCharge := Some (Fin 3), totalAmount := Fin (69 / 2) \<rparr>"

definition sample_markup_order :: order where
  "sample_markup_order =
     (sample_order ''Delivered'' ''pickup'' 12)
       \<lparr> customerName := ''<p><strong>Address:</strong> 1 Main St</p>'' \<rparr>"

section \<open>Properties of the report counts\<close>

lemma sum_status_counts_eq:
  "sum_status_counts orders =
     length (filter (\<lambda>ord. orderStatus ord \<in> four_statuses) orders)"
  by (induction orders)
     (auto simp: sum_status_counts_def status_counts_def count_status_def four_statuses_def)

lemma pickup_delivery_eq:
  "pickupOrders orders + deliveryOrders orders =
     length (filter (\<lambda>ord. deliveryType ord = ''pickup'' \<or> deliveryType ord = ''delivery'') orders)"
  by (induction orders) (auto simp: pickupOrders_def deliveryOrders_def)

lemma length_filter_less_if:
  "x \<in> set xs \<Longrightarrow> \<not> P x \<Longrightarrow> length (filter P xs) < length xs"
  by (induction xs) (auto simp: less_Suc_eq_le)

text \<open>
  C10. The four reported status counts add up to at most the number of orders, to
  strictly less when an order of the window has a status outside the four (a cancelled
  order, say); and the pickup and the delivery counts add up to at most the number of
  orders.
\<close>

theorem status_counts_bounded:
  "sum_status_counts orders \<le> totalOrders orders
   \<and> ((\<exists>ord \<in> set orders. orderStatus ord \<notin> four_statuses) \<longrightarrow>
        sum_status_counts orders < totalOrders orders)
   \<and> pickupOrders orders + deliveryOrders orders \<le> totalOrders orders"
proof (intro conjI impI)
  show "sum_status_counts orders \<le> totalOrders orders"
    by (simp add: sum_status_counts_eq totalOrders_def)
next
  assume "\<exists>ord \<in> set orders. orderStatus ord \<notin> four_statuses"
  then obtain ord where "ord \<in> set orders" "orderStatus ord \<notin> four_statuses"
    by blast
  then show "sum_status_counts orders < totalOrders orders"
    unfolding sum_status_counts_eq totalOrders_def
    by (rule length_filter_less_if)
next
  show "pickupOrders orders + deliveryOrders orders \<le> totalOrders orders"
    by (simp add: pickup_delivery_eq totalOrders_def)
qed

theorem status_counts_bounded_witness:
  "sum_status_counts sample_orders < totalOrders sample_orders \<and>
   sum_status_counts sample_orders = 2 \<and> totalOrders sample_orders = 3 \<and>
   pickupOrders sample_orders + deliveryOrders sample_orders = 3"
proof -
  have "\<exists>ord \<in> set sample_orders. orderStatus ord \<notin> four_statuses"
    by (simp add: sample_orders_def sample_order_def four_statuses_def)
  with status_counts_bounded [of sample_orders]
  have "sum_status_counts sample_orders < totalOrders sample_orders" by blast
  then show ?thesis
    by (simp add: sample_orders_def sample_order_def sum_status_counts_def status_counts_def
        count_status_def totalOrders_def pickupOrders_def deliveryOrders_def)
qed

section \<open>Rounding to two decimals\<close>

lemma digit_char_props:
  assumes "d < 10"
  shows "is_digit (digit_char d)" and "digit_val (digit_char d) = d"
proof -
  from assms have "d \<in> {0,1,2,3,4,5,6,7,8,9}" by auto
  then show "is_digit (digit_char d)" and "digit_val (digit_char d) = d"
    by (auto simp: is_digit_def digit_char_def digit_val_def)
qed

lemma show_nat_digits: "\<forall>c \<in> set (show_nat n). is_digit c"
proof (induction n rule: show_nat.induct)
  case (1 n)
  show ?case
  proof (cases "n < 10")
    case True
    then show ?thesis by (subst show_nat.simps) (simp add: digit_char_props)
  next
    case False
    with 1 show ?thesis by (subst show_nat.simps) (simp add: digit_char_props)
  qed
qed

lemma show_nat_not_Nil: "show_nat n \<noteq> []"
  by (subst show_nat.simps) simp

lemma digits_val_snoc: "digits_val (ds @ [c]) = 10 * digits_val ds + digit_val c"
  by (simp add: digits_val_def)

lemma digits_val_show_nat: "digits_val (show_nat n) = n"
proof (induction n rule: show_nat.induct)
  case (1 n)
  show ?case
  proof (cases "n < 10")
    case True
    then show ?thesis
      by (subst show_nat.simps) (simp add: digits_val_def digit_char_props)
  next
    case False
    with 1 show ?thesis
      by (subst show_nat.simps) (simp add: digits_val_snoc digit_char_props)
  qed
qed

lemma takeWhile_digits_show_nat:
  assumes "\<not> is_digit c"
  shows "takeWhile is_digit (show_nat n @ c # r) = show_nat n"
    and "dropWhile is_digit (show_nat n @ c # r) = c # r"
  using assms show_nat_digits [of n]
  by (simp_all add: takeWhile_append2 dropWhile_append2)

lemma two_digits:
  assumes "a < 10" "b < 10"
  shows "takeWhile is_digit [digit_char a, digit_char b] = [digit_char a, digit_char b]"
    and "dropWhile is_digit [digit_char a, digit_char b] = []"
  using assms by (simp_all add: digit_char_props)

lemma unsigned_literal_fixed:
  assumes "a < 10" "b < 10"
  shows "unsigned_literal (show_nat k @ ''.'' @ [digit_char a, digit_char b]) =
           Some (of_nat (100 * k + 10 * a + b) / 100)"
proof -
  define s where "s = show_nat k @ ''.'' @ [digit_char a, digit_char b]"
  have nd: "\<not> is_digit CHR ''.''" by (simp add: is_digit_def)
  have s: "s = show_nat k @ CHR ''.'' # [digit_char a, digit_char b]"
    by (simp add: s_def)
  have ip: "takeWhile is_digit s = show_nat k"
    unfolding s by (rule takeWhile_digits_show_nat(1) [OF nd])
  have r1: "dropWhile is_digit s = CHR ''.'' # [digit_char a, digit_char b]"
    unfolding s by (rule takeWhile_digits_show_nat(2) [OF nd])
  have v: "digits_val (show_nat k @ [digit_char a, digit_char b]) = 100 * k + 10 * a + b"
    using digits_val_snoc [of "show_nat k @ [digit_char a]" "digit_char b"]
          digits_val_snoc [of "show_nat k" "digit_char a"] assms
    by (simp add: digits_val_show_nat digit_char_props)
  have e: "pow10 (exponent_part []) = 1"
    by (simp add: exponent_part_def pow10_def)
  have "unsigned_literal s =
          Some (of_nat (digits_val (show_nat k @ [digit_char a, digit_char b])) / 10 ^ 2 * 1)"
    unfolding unsigned_literal_def ip r1 Let_def
    by (simp only: list.case if_True two_digits [OF assms] e append_is_Nil_conv show_nat_not_Nil
        simp_thms if_False length_Cons list.size One_nat_def)
       (simp add: numeral_2_eq_2)
  then show ?thesis
    unfolding v s_def by simp
qed

lemma show_nat_hd:
  "\<exists>c r. show_nat n = c # r \<and> is_digit c"
  using show_nat_digits [of n] show_nat_not_Nil [of n]
  by (cases "show_nat n") auto

lemma digit_not_special:
  "is_digit c \<Longrightarrow> \<not> is_ws c \<and> c \<noteq> CHR ''-'' \<and> c \<noteq> CHR ''+'' \<and> c \<noteq> CHR ''I''"
  by (auto simp: is_digit_def is_ws_def)

lemma parseFloat_digit_start:
  assumes "is_digit c" "unsigned_literal (c # r) = Some v"
  shows "parseFloat_str (c # r) = Fin v"
    and "parseFloat_str (CHR ''-'' # c # r) = Fin (- v)"
proof -
  from assms(1) have sp: "\<not> is_ws c" "c \<noteq> CHR ''-''" "c \<noteq> CHR ''+''" "c \<noteq> CHR ''I''"
    using digit_not_special by auto
  have nw: "\<not> is_ws CHR ''-''" by (simp add: is_ws_def)
  show "parseFloat_str (c # r) = Fin v"
    unfolding parseFloat_str_def Let_def using sp assms(2) by simp
  show "parseFloat_str (CHR ''-'' # c # r) = Fin (- v)"
    unfolding parseFloat_str_def Let_def using sp nw assms(2) by simp
qed

lemma nat_split_100: "100 * (n div 100) + 10 * (n mod 100 div 10) + n mod 10 = (n::nat)"
proof -
  have a: "n mod 100 mod 10 = n mod 10" by (simp add: mod_mod_cancel)
  have b: "10 * (n mod 100 div 10) + n mod 100 mod 10 = n mod 100" by simp
  have c: "100 * (n div 100) + n mod 100 = n" by simp
  from a b c show ?thesis by linarith
qed

lemma two_digit_bounds: "(n::nat) mod 100 div 10 < 10" "n mod 10 < 10"
  by (simp_all add: less_mult_imp_div_less)

lemma round_floor_nonneg: "0 \<le> \<lfloor>\<bar>a::rat\<bar> * 100 + 1 / 2\<rfloor>"
  by (rule zero_le_floor [THEN iffD2]) simp

lemma parseFloat_toFixed2:
  assumes "\<bar>a\<bar> < 10 ^ 21"
  shows "parseFloat_str (toFixed2 rt (Fin a)) =
           Fin ((if a < 0 then - 1 else 1) * of_int \<lfloor>\<bar>a\<bar> * 100 + 1 / 2\<rfloor> / 100)"
proof -
  define n where "n = nat \<lfloor>\<bar>a\<bar> * 100 + 1 / 2\<rfloor>"
  define body where
    "body = show_nat (n div 100) @ ''.'' @ [digit_char (n mod 100 div 10), digit_char (n mod 10)]"
  have val: "rat_of_nat n = of_int \<lfloor>\<bar>a\<bar> * 100 + 1 / 2\<rfloor>"
    unfolding n_def using round_floor_nonneg [of a] by (simp add: of_nat_nat)
  have "unsigned_literal body =
          Some (of_nat (100 * (n div 100) + 10 * (n mod 100 div 10) + n mod 10) / 100)"
    unfolding body_def by (rule unsigned_literal_fixed [OF two_digit_bounds])
  then have lit: "unsigned_literal body = Some (of_nat n / 100)"
    unfolding nat_split_100 .
  obtain c r where cr: "body = c # r" "is_digit c"
    using show_nat_hd [of "n div 100"] unfolding body_def by auto
  have lit': "unsigned_literal (c # r) = Some (of_nat n / 100)"
    using lit unfolding cr(1) .
  have big: "\<not> 10 ^ 21 \<le> \<bar>a\<bar>"
    using assms by simp
  have tf: "toFixed2 rt (Fin a) = (if a < 0 then ''-'' else []) @ body"
    unfolding toFixed2_def body_def n_def Let_def jsnum.case if_not_P [OF big] ..
  show ?thesis
  proof (cases "a < 0")
    case True
    have "parseFloat_str (toFixed2 rt (Fin a)) = Fin (- (of_nat n / 100))"
      unfolding tf cr(1) using True parseFloat_digit_start(2) [OF cr(2) lit'] by simp
    then show ?thesis
      unfolding val using True by simp
  next
    case False
    have "parseFloat_str (toFixed2 rt (Fin a)) = Fin (of_nat n / 100)"
      unfolding tf cr(1) using False parseFloat_digit_start(1) [OF cr(2) lit'] by simp
    then show ?thesis
      unfolding val using False by simp
  qed
qed

lemma foldl_js_add_finite:
  assumes "list_all (\<lambda>x. is_finite (f x)) xs"
  shows "foldl (\<lambda>sum x. js_add sum (f x)) (Fin s) xs = Fin (s + sum_list (map (\<lambda>x. amount (f x)) xs))"
  using assms
proof (induction xs arbitrary: s)
  case Nil
  then show ?case by simp
next
  case (Cons x xs)
  from Cons.prems obtain a where a: "f x = Fin a"
    by (cases "f x") auto
  from Cons.prems have "list_all (\<lambda>x. is_finite (f x)) xs" by simp
  from Cons.IH [OF this, of "s + a"] show ?case
    by (simp add: a add.assoc)
qed

lemma totalSales_finite:
  assumes "list_all (\<lambda>ord. is_finite (totalAmount ord)) orders"
  shows "totalSales orders = Fin (sum_list (map (\<lambda>ord. amount (totalAmount ord)) orders))"
  unfolding totalSales_def using foldl_js_add_finite [OF assms, of 0] by simp

lemma round_half_close:
  fixes q :: rat
  defines "k \<equiv> (if q < 0 then - 1 else 1) * \<lfloor>\<bar>q\<bar> * 100 + 1 / 2\<rfloor>"
  shows "\<bar>of_int k / 100 - q\<bar> \<le> 1 / 200"
proof -
  define m where "m = \<lfloor>\<bar>q\<bar> * 100 + 1 / 2\<rfloor>"
  have lo: "of_int m \<le> \<bar>q\<bar> * 100 + 1 / 2"
    unfolding m_def by (rule of_int_floor_le)
  have hi: "\<bar>q\<bar> * 100 + 1 / 2 < of_int m + 1"
    unfolding m_def using floor_correct [of "\<bar>q\<bar> * 100 + 1 / 2"] by simp
  have close: "\<bar>of_int m / 100 - \<bar>q\<bar>\<bar> \<le> 1 / 200"
  proof -
    have "of_int m / 100 - \<bar>q\<bar> \<le> 1 / 200"
      using lo by linarith
    moreover have "- (of_int m / 100 - \<bar>q\<bar>) \<le> 1 / 200"
      using hi by linarith
    ultimately show ?thesis by (rule abs_leI)
  qed
  show ?thesis
  proof (cases "q < 0")
    case True
    then have "of_int k / 100 - q = - (of_int m / 100 - \<bar>q\<bar>)"
      by (simp add: k_def m_def)
    then have "\<bar>of_int k / 100 - q\<bar> = \<bar>of_int m / 100 - \<bar>q\<bar>\<bar>"
      by (simp only: abs_minus)
    then show ?thesis using close by (simp only:)
  next
    case False
    then have "of_int k / 100 - q = of_int m / 100 - \<bar>q\<bar>"
      by (simp add: k_def m_def)
    then show ?thesis using close by simp
  qed
qed

text \<open>
  C6. The reported average order value is exactly 0 for an empty window; for a window with
  orders (of finite totals, the quotient below \<open>10^21\<close> in magnitude) it is the total
  sales divided by the number of orders, rounded to two decimals: a multiple of 0.01 at
  most half a cent away from the quotient.
\<close>

theorem averageOrderValue_rounded:
  "(orders = [] \<longrightarrow> averageOrderValue rt orders = Fin 0) \<and>
   (orders \<noteq> [] \<and> list_all (\<lambda>ord. is_finite (totalAmount ord)) orders \<and>
    \<bar>sum_list (map (\<lambda>ord. amount (totalAmount ord)) orders) / of_nat (length orders)\<bar> < 10 ^ 21 \<longrightarrow>
      (\<exists>k::int.
         averageOrderValue rt orders = Fin (of_int k / 100) \<and>
         \<bar>of_int k / 100 -
           sum_list (map (\<lambda>ord. amount (totalAmount ord)) orders) / of_nat (length orders)\<bar>
           \<le> 1 / 200))"
proof (intro conjI impI)
  assume "orders = []"
  then show "averageOrderValue rt orders = Fin 0"
    by (simp add: averageOrderValue_def totalOrders_def)
next
  define q where
    "q = sum_list (map (\<lambda>ord. amount (totalAmount ord)) orders) / of_nat (length orders)"
  assume "orders \<noteq> [] \<and> list_all (\<lambda>ord. is_finite (totalAmount ord)) orders \<and>
    \<bar>sum_list (map (\<lambda>ord. amount (totalAmount ord)) orders) / of_nat (length orders)\<bar> < 10 ^ 21"
  then have ne: "orders \<noteq> []"
    and fin: "list_all (\<lambda>ord. is_finite (totalAmount ord)) orders"
    and small: "\<bar>q\<bar> < 10 ^ 21"
    by (simp_all add: q_def)
  define k where "k = (if q < 0 then - 1 else 1) * \<lfloor>\<bar>q\<bar> * 100 + 1 / 2\<rfloor>"
  have len: "rat_of_nat (length orders) \<noteq> 0"
    using ne by simp
  have "js_div (totalSales orders) (Fin (of_nat (totalOrders orders))) = Fin q"
    unfolding totalSales_finite [OF fin] totalOrders_def q_def using len by simp
  then have "averageOrderValue rt orders = parseFloat_str (toFixed2 rt (Fin q))"
    using ne by (simp add: averageOrderValue_def totalOrders_def fixed2_def)
  also have "\<dots> = Fin (of_int k / 100)"
    unfolding parseFloat_toFixed2 [OF small] k_def by simp
  finally have avg: "averageOrderValue rt orders = Fin (of_int k / 100)" .
  have "\<bar>of_int k / 100 - q\<bar> \<le> 1 / 200"
    unfolding k_def by (rule round_half_close)
  with avg show "\<exists>k::int.
         averageOrderValue rt orders = Fin (of_int k / 100) \<and>
         \<bar>of_int k / 100 -
           sum_list (map (\<lambda>ord. amount (totalAmount ord)) orders) / of_nat (length orders)\<bar>
           \<le> 1 / 200"
    unfolding q_def by blast
qed

lemma sample_orders_facts:
  "sample_orders \<noteq> []"
  "list_all (\<lambda>ord. is_finite (totalAmount ord)) sample_orders"
  "sum_list (map (\<lambda>ord. amount (totalAmount ord)) sample_orders) / of_nat (length sample_orders)
     = 3001 / 300"
  by (simp_all add: sample_orders_def sample_order_def)

theorem averageOrderValue_rounded_witness:
  "averageOrderValue sample_runtime [] = Fin 0 \<and>
   averageOrderValue sample_runtime sample_orders = Fin 10"
proof
  show "averageOrderValue sample_runtime [] = Fin 0"
    using averageOrderValue_rounded [of "[]" sample_runtime] by simp
next
  from averageOrderValue_rounded [of sample_orders sample_runtime]
  obtain k :: int where k: "averageOrderValue sample_runtime sample_orders = Fin (of_int k / 100)"
    and close: "\<bar>rat_of_int k / 100 - 3001 / 300\<bar> \<le> 1 / 200"
    unfolding sample_orders_facts(3) using sample_orders_facts(1,2) by auto
  from close have "rat_of_int (2 * \<bar>k * 3 - 3001\<bar>) \<le> rat_of_int 3"
    by (simp add: field_simps)
  then have "2 * \<bar>k * 3 - 3001\<bar> \<le> 3"
    by (simp only: of_int_le_iff)
  then have "k = 1000" by arith
  with k show "averageOrderValue sample_runtime sample_orders = Fin 10" by simp
qed

section \<open>The windows of the sales report\<close>

lemma div_bounds:
  fixes x n :: int
  assumes "0 < n"
  shows "n * (x div n) \<le> x" and "x < n * (x div n) + n"
proof -
  have "x = n * (x div n) + x mod n" by simp
  moreover have "0 \<le> x mod n" "x mod n < n"
    using assms by simp_all
  ultimately show "n * (x div n) \<le> x" and "x < n * (x div n) + n"
    by linarith+
qed

lemma DayFromYear_bounds:
  "146097 * y - 287811596 \<le> 400 * DayFromYear y"
  "400 * DayFromYear y \<le> 146097 * y - 287810501"
proof -
  define a where "a = (y - 1969) div 4"
  define b where "b = (y - 1901) div 100"
  define c where "c = (y - 1601) div 400"
  have a: "4 * a \<le> y - 1969" "y - 1969 < 4 * a + 4"
    unfolding a_def by (rule div_bounds; simp)+
  have b: "100 * b \<le> y - 1901" "y - 1901 < 100 * b + 100"
    unfolding b_def by (rule div_bounds; simp)+
  have c: "400 * c \<le> y - 1601" "y - 1601 < 400 * c + 400"
    unfolding c_def by (rule div_bounds; simp)+
  have f: "400 * DayFromYear y = 146000 * y - 287620000 + 400 * a - 400 * b + 400 * c"
    by (simp add: DayFromYear_def a_def b_def c_def)
  show "146097 * y - 287811596 \<le> 400 * DayFromYear y"
    unfolding f using a b c by linarith
  show "400 * DayFromYear y \<le> 146097 * y - 287810501"
    unfolding f using a b c by linarith
qed

lemma YearFromDay_correct:
  "DayFromYear (YearFromDay d) \<le> d \<and> d < DayFromYear (YearFromDay d + 1)"
proof -
  define y where "y = 1970 + (d * 400) div 146097"
  have "146097 * ((d * 400) div 146097) \<le> d * 400"
    "d * 400 < 146097 * ((d * 400) div 146097) + 146097"
    by (rule div_bounds; simp)+
  then have q: "146097 * y - 287811090 \<le> d * 400" "d * 400 < 146097 * y - 287664993"
    unfolding y_def by simp_all
  have "400 * DayFromYear (y - 1) \<le> 146097 * y - 287956598"
    using DayFromYear_bounds(2) [of "y - 1"] by simp
  with q have lo: "DayFromYear (y - 1) \<le> d"
    by linarith
  have "146097 * y - 287519402 \<le> 400 * DayFromYear (y + 2)"
    using DayFromYear_bounds(1) [of "y + 2"] by simp
  with q have hi: "d < DayFromYear (y + 2)"
    by linarith
  have s: "y + 1 + 1 = y + 2" "y - 1 + 1 = y" by simp_all
  consider "DayFromYear (y + 1) \<le> d"
    | "\<not> DayFromYear (y + 1) \<le> d" "DayFromYear y \<le> d"
    | "\<not> DayFromYear (y + 1) \<le> d" "\<not> DayFromYear y \<le> d"
    by blast
  then show ?thesis
  proof cases
    case 1
    then have "YearFromDay d = y + 1"
      by (simp add: YearFromDay_def y_def Let_def)
    with 1 hi show ?thesis by (simp add: s)
  next
    case 2
    then have "YearFromDay d = y"
      by (simp add: YearFromDay_def y_def Let_def)
    with 2 show ?thesis by simp
  next
    case 3
    then have "YearFromDay d = y - 1"
      by (simp add: YearFromDay_def y_def Let_def)
    with 3 lo show ?thesis by (simp add: s)
  qed
qed








lemma getDay_range: "0 \<le> getDay tza t" "getDay tza t \<le> 6"
  by (simp_all add: getDay_def WeekDay_def)














section \<open>Creating offers\<close>

lemma trim_Nil: "trim rt [] = []"
  by (simp add: trim_def)

lemma toUpperCase_Nil: "toUpperCase rt [] = []"
  by (simp add: toUpperCase_def)

lemma text_given_truthy: "text_given rt v \<Longrightarrow> truthy v"
  by (cases v) (auto simp: text_given_def trim_Nil)

lemma code_free_truthy: "code_free rt store v \<Longrightarrow> truthy v"
  by (cases v) (auto simp: code_free_def trim_Nil toUpperCase_Nil)

lemma find_None_code: "Offer_findOne_code store c = None \<longleftrightarrow> (\<forall>x \<in> set store. code x \<noteq> c)"
  by (auto simp: Offer_findOne_code_def find_None_iff)

text \<open>
  A request that fails the required-fields check, the discount check or a date check is
  answered with status 400 and leaves the collection as it was, whatever else it holds.
\<close>

lemma createOffer_rejects:
  assumes "\<not> (truthy (req_body req ''discount'') \<and> truthy (req_body req ''validFrom'')
              \<and> truthy (req_body req ''validUntil'')
              \<and> discount_in_range (req_body req ''discount'')
              \<and> dates_in_order (runtime_of e) (req_body req ''validFrom'')
                    (req_body req ''validUntil''))"
  shows "status (fst (createOffer e store req)) = 400 \<and> snd (createOffer e store req) = store"
proof (cases "truthy (req_body req ''title'') \<and> truthy (req_body req ''description'')
    \<and> truthy (req_body req ''discount'') \<and> truthy (req_body req ''code'')
    \<and> truthy (req_body req ''validFrom'') \<and> truthy (req_body req ''validUntil'')")
  case False
  then have "createOffer e store req =
      (Response 400 (Message ''Please provide all required fields''), store)"
    unfolding createOffer_def Let_def by (simp only: if_True de_Morgan_conj simp_thms)
  then show ?thesis by simp
next
  case required: True
  show ?thesis
  proof (cases "discount_in_range (req_body req ''discount'')")
    case False
    then have "parseFloat (req_body req ''discount'') = NaN
        \<or> js_lt (parseFloat (req_body req ''discount'')) (Fin 0)
        \<or> js_gt (parseFloat (req_body req ''discount'')) (Fin 100)"
      by (cases "parseFloat (req_body req ''discount'')")
         (auto simp: discount_in_range_def js_gt_def)
    with required have "createOffer e store req =
        (Response 400 (Message ''Discount must be a number between 0 and 100''), store)"
      unfolding createOffer_def Let_def by simp
    then show ?thesis by simp
  next
    case range: True
    then have ok: "\<not> (parseFloat (req_body req ''discount'') = NaN
        \<or> js_lt (parseFloat (req_body req ''discount'')) (Fin 0)
        \<or> js_gt (parseFloat (req_body req ''discount'')) (Fin 100))"
      by (cases "parseFloat (req_body req ''discount'')")
         (auto simp: discount_in_range_def js_gt_def)
    from assms required range
    have dates: "\<not> dates_in_order (runtime_of e) (req_body req ''validFrom'')
                    (req_body req ''validUntil'')"
      by simp
    show ?thesis
    proof (cases "new_Date (runtime_of e) (req_body req ''validFrom'')")
      case None
      with required ok have "createOffer e store req =
          (Response 400 (Message ''Invalid date format''), store)"
        unfolding createOffer_def Let_def by simp
      then show ?thesis by simp
    next
      case vf: (Some fromTime)
      show ?thesis
      proof (cases "new_Date (runtime_of e) (req_body req ''validUntil'')")
        case None
        with required ok vf have "createOffer e store req =
            (Response 400 (Message ''Invalid date format''), store)"
          unfolding createOffer_def Let_def by simp
        then show ?thesis by simp
      next
        case (Some untilTime)
        with dates vf have "untilTime \<le> fromTime"
          by (simp add: dates_in_order_def)
        with required ok vf Some have "createOffer e store req =
            (Response 400 (Message ''Valid until date must be after valid from date''), store)"
          unfolding createOffer_def Let_def by simp
        then show ?thesis by simp
      qed
    qed
  qed
qed

text \<open>A request that passes every check is stored, and answered with status 201.\<close>

lemma createOffer_accepts:
  assumes other: "other_checks_pass e store req"
    and given: "truthy (req_body req ''discount'')" "truthy (req_body req ''validFrom'')"
      "truthy (req_body req ''validUntil'')"
    and range: "discount_in_range (req_body req ''discount'')"
    and dates: "dates_in_order (runtime_of e) (req_body req ''validFrom'')
                  (req_body req ''validUntil'')"
  shows "\<exists>doc. createOffer e store req = (Response 201 (OfferJson doc), store @ [doc])
           \<and> discount doc = parseFloat (req_body req ''discount'')
           \<and> new_Date (runtime_of e) (req_body req ''validFrom'') = Some (validFrom doc)
           \<and> new_Date (runtime_of e) (req_body req ''validUntil'') = Some (validUntil doc)"
proof -
  from other obtain t d c where
    t: "req_body req ''title'' = JStr t" "trim (runtime_of e) t \<noteq> []"
    and d: "req_body req ''description'' = JStr d" "trim (runtime_of e) d \<noteq> []"
    and c: "req_body req ''code'' = JStr c"
      "toUpperCase (runtime_of e) (trim (runtime_of e) (toUpperCase (runtime_of e) c)) \<noteq> []"
      "Offer_findOne_code store (toUpperCase (runtime_of e) c) = None"
      "Offer_findOne_code store (toUpperCase (runtime_of e) (trim (runtime_of e) (toUpperCase (runtime_of e) c))) = None"
    unfolding other_checks_pass_def text_given_def code_free_def
    by (auto split: jsval.splits)
  from other have required: "truthy (req_body req ''title'')" "truthy (req_body req ''description'')"
    "truthy (req_body req ''code'')"
    unfolding other_checks_pass_def by (auto intro: text_given_truthy code_free_truthy)
  from range obtain x where x: "parseFloat (req_body req ''discount'') = Fin x" "0 \<le> x" "x \<le> 100"
    unfolding discount_in_range_def by (auto split: jsnum.splits)
  from dates obtain fromTime untilTime where
    f: "new_Date (runtime_of e) (req_body req ''validFrom'') = Some fromTime"
    and u: "new_Date (runtime_of e) (req_body req ''validUntil'') = Some untilTime"
    and order: "fromTime < untilTime"
    unfolding dates_in_order_def by (auto split: option.splits)
  from other obtain imageUrl cloudinaryId where
    up: "(case req_file req of None \<Rightarrow> Inr ([], []) | Some f \<Rightarrow> upload_image e f) =
           Inr (imageUrl, cloudinaryId)"
    unfolding other_checks_pass_def upload_accepted_def
    by (auto split: option.splits sum.splits)
  define m where "m = (if truthy (req_body req ''minOrderAmount'')
      \<and> req_body req ''minOrderAmount'' \<noteq> JStr []
    then parseFloat (req_body req ''minOrderAmount'') else Fin 0)"
  from other have m: "m \<noteq> NaN"
    unfolding other_checks_pass_def amount_given_def m_def by (auto split: if_splits)
  define doc where "doc = \<lparr> offer_id = fresh_id store, title = trim (runtime_of e) t, description = trim (runtime_of e) d,
      discount = Fin x, code = toUpperCase (runtime_of e) (trim (runtime_of e) (toUpperCase (runtime_of e) c)), validFrom = fromTime,
      validUntil = untilTime, isActive = Some True, minOrderAmount = m,
      offer_image = imageUrl, cloudinary_id = cloudinaryId,
      offer_createdAt = clock e, offer_updatedAt = clock e \<rparr>"
  have valid: "validate_offer doc = []"
    using t(2) d(2) c(2) x(2,3) m
    by (simp add: validate_offer_def doc_def js_gt_def)
  have fresh: "\<not> (\<exists>y \<in> set store. code y = code doc)"
    using c(4) by (simp add: find_None_code doc_def)
  have created: "Offer_create e store (trim (runtime_of e) t) (trim (runtime_of e) d) (Fin x) (trim (runtime_of e) (toUpperCase (runtime_of e) c))
      fromTime untilTime m imageUrl cloudinaryId = Inr (doc, store @ [doc])"
    unfolding Offer_create_def doc_def [symmetric] Let_def using valid fresh by simp
  have "createOffer e store req = (Response 201 (OfferJson doc), store @ [doc])"
    unfolding createOffer_def Let_def
    using required given x f u order t(1) d(1) c(1,3) up created [unfolded m_def]
    by (simp add: js_gt_def)
  moreover have "discount doc = parseFloat (req_body req ''discount'')"
    "validFrom doc = fromTime" "validUntil doc = untilTime"
    by (simp_all add: doc_def x(1))
  ultimately show ?thesis
    using f u by simp
qed

text \<open>
  C4. For a request whose dates both parse (and that passes the other checks of the
  handler), the offer is created exactly when \<open>validUntil\<close> is strictly after
  \<open>validFrom\<close>; otherwise, equal dates included, the answer is the status 400 with the
  message of the date check, and nothing is stored.
\<close>

theorem create_iff_until_after_from:
  assumes other: "other_checks_pass e store req"
    and given: "truthy (req_body req ''validFrom'')" "truthy (req_body req ''validUntil'')"
    and discount: "truthy (req_body req ''discount'')"
      "discount_in_range (req_body req ''discount'')"
    and vf: "new_Date (runtime_of e) (req_body req ''validFrom'') = Some fromTime"
    and vu: "new_Date (runtime_of e) (req_body req ''validUntil'') = Some untilTime"
  shows "(status (fst (createOffer e store req)) = 201 \<longleftrightarrow> fromTime < untilTime)
    \<and> (fromTime < untilTime \<longrightarrow>
         (\<exists>doc. createOffer e store req = (Response 201 (OfferJson doc), store @ [doc])
            \<and> validFrom doc = fromTime \<and> validUntil doc = untilTime))
    \<and> (untilTime \<le> fromTime \<longrightarrow>
         createOffer e store req =
           (Response 400 (Message ''Valid until date must be after valid from date''), store))"
proof -
  have order: "dates_in_order (runtime_of e) (req_body req ''validFrom'')
      (req_body req ''validUntil'') \<longleftrightarrow> fromTime < untilTime"
    by (simp add: dates_in_order_def vf vu)
  have accepted: "\<exists>doc. createOffer e store req = (Response 201 (OfferJson doc), store @ [doc])
      \<and> validFrom doc = fromTime \<and> validUntil doc = untilTime" if "fromTime < untilTime"
    using createOffer_accepts [OF other discount(1) given discount(2)] that order vf vu
    by auto
  have refused: "createOffer e store req =
      (Response 400 (Message ''Valid until date must be after valid from date''), store)"
    if "untilTime \<le> fromTime"
  proof -
    from other have required: "truthy (req_body req ''title'')"
      "truthy (req_body req ''description'')" "truthy (req_body req ''code'')"
      unfolding other_checks_pass_def by (auto intro: text_given_truthy code_free_truthy)
    from discount(2) have ok: "\<not> (parseFloat (req_body req ''discount'') = NaN
        \<or> js_lt (parseFloat (req_body req ''discount'')) (Fin 0)
        \<or> js_gt (parseFloat (req_body req ''discount'')) (Fin 100))"
      by (cases "parseFloat (req_body req ''discount'')")
         (auto simp: discount_in_range_def js_gt_def)
    show ?thesis
      unfolding createOffer_def Let_def
      using required given discount(1) ok vf vu that by simp
  qed
  have "status (fst (createOffer e store req)) = 201 \<longleftrightarrow> fromTime < untilTime"
  proof
    assume "status (fst (createOffer e store req)) = 201"
    then show "fromTime < untilTime"
      using refused by (cases "fromTime < untilTime") auto
  next
    assume "fromTime < untilTime"
    from accepted [OF this] show "status (fst (createOffer e store req)) = 201"
      by auto
  qed
  with accepted refused show ?thesis
    by blast
qed

lemmas sample_request_defs =
  sample_request_def sample_body_def sample_env_def sample_runtime_def

lemmas string_eval_defs =
  toUpperCase_def upper_char_def is_ascii_def trim_def is_ws_def is_digit_def digits_val_def
  digit_val_def
  parseFloat_str_def unsigned_literal_def exponent_part_def pow10_def

lemma sample_request_checks:
  "other_checks_pass sample_env [] (sample_request d ''save10'' vf vu)"
  by (simp add: other_checks_pass_def text_given_def code_free_def upload_accepted_def
      amount_given_def Offer_findOne_code_def sample_request_defs string_eval_defs)

lemma sample_request_dates:
  "truthy (req_body (sample_request d c ''1700000000000'' vu) ''validFrom'')"
  "truthy (req_body (sample_request d c vf ''1700000000000'') ''validUntil'')"
  "truthy (req_body (sample_request d c vf ''1800000000000'') ''validUntil'')"
  "new_Date (runtime_of sample_env) (req_body (sample_request d c ''1700000000000'' vu) ''validFrom'')
     = Some 1700000000000"
  "new_Date (runtime_of sample_env) (req_body (sample_request d c vf ''1700000000000'') ''validUntil'')
     = Some 1700000000000"
  "new_Date (runtime_of sample_env) (req_body (sample_request d c vf ''1800000000000'') ''validUntil'')
     = Some 1800000000000"
  by (simp_all add: sample_request_defs string_eval_defs)

lemma sample_request_discount:
  "req_body (sample_request d c vf vu) ''discount'' = d"
  by (simp add: sample_request_defs)

lemma discount_in_range_examples:
  "discount_in_range (JStr ''0'')" "discount_in_range (JStr ''10'')"
  "discount_in_range (JStr ''100'')" "\<not> discount_in_range (JStr ''-1'')"
  "\<not> discount_in_range (JStr ''101'')" "discount_in_range (JNum (Fin 0))"
  by (simp_all add: discount_in_range_def string_eval_defs)

theorem create_iff_until_after_from_witness:
  "createOffer sample_env [] (sample_request (JStr ''10'') ''save10'' ''1700000000000'' ''1700000000000'')
     = (Response 400 (Message ''Valid until date must be after valid from date''), [])
   \<and> status (fst (createOffer sample_env []
        (sample_request (JStr ''10'') ''save10'' ''1700000000000'' ''1800000000000''))) = 201"
proof -
  define equal where
    "equal = sample_request (JStr ''10'') ''save10'' ''1700000000000'' ''1700000000000''"
  define later where
    "later = sample_request (JStr ''10'') ''save10'' ''1700000000000'' ''1800000000000''"
  have d: "truthy (req_body equal ''discount'')" "discount_in_range (req_body equal ''discount'')"
    "truthy (req_body later ''discount'')" "discount_in_range (req_body later ''discount'')"
    unfolding equal_def later_def sample_request_discount
    by (simp_all add: discount_in_range_examples)
  have "createOffer sample_env [] equal
     = (Response 400 (Message ''Valid until date must be after valid from date''), [])"
    using create_iff_until_after_from [of sample_env "[]" equal 1700000000000 1700000000000] d(1,2)
    unfolding equal_def by (simp add: sample_request_checks sample_request_dates)
  moreover have "status (fst (createOffer sample_env [] later)) = 201"
    using create_iff_until_after_from [of sample_env "[]" later 1700000000000 1800000000000] d(3,4)
    unfolding later_def by (simp add: sample_request_checks sample_request_dates)
  ultimately show ?thesis
    unfolding equal_def later_def by simp
qed

text \<open>
  For a request that passes the other checks and gives the discount as a non-empty string
  (or any other value that the required-fields check takes as given), the offer is created
  exactly when the discount parses to a number from 0 to 100.
\<close>

lemma create_iff_discount_in_range:
  assumes other: "other_checks_pass e store req"
    and given: "truthy (req_body req ''discount'')" "truthy (req_body req ''validFrom'')"
      "truthy (req_body req ''validUntil'')"
    and dates: "dates_in_order (runtime_of e) (req_body req ''validFrom'')
                  (req_body req ''validUntil'')"
  shows "status (fst (createOffer e store req)) = 201 \<longleftrightarrow>
           discount_in_range (req_body req ''discount'')"
    and "\<not> discount_in_range (req_body req ''discount'') \<Longrightarrow>
           status (fst (createOffer e store req)) = 400 \<and> snd (createOffer e store req) = store"
proof -
  show r: "status (fst (createOffer e store req)) = 400 \<and> snd (createOffer e store req) = store"
    if "\<not> discount_in_range (req_body req ''discount'')"
    using createOffer_rejects [of req e store] that by blast
  show "status (fst (createOffer e store req)) = 201 \<longleftrightarrow>
           discount_in_range (req_body req ''discount'')"
  proof
    assume "status (fst (createOffer e store req)) = 201"
    then show "discount_in_range (req_body req ''discount'')"
      using r by (cases "discount_in_range (req_body req ''discount'')") auto
  next
    assume "discount_in_range (req_body req ''discount'')"
    from createOffer_accepts [OF other given this dates]
    show "status (fst (createOffer e store req)) = 201" by auto
  qed
qed

lemma create_discount_examples:
  "status (fst (createOffer sample_env []
      (sample_request (JStr ''0'') ''save10'' ''1700000000000'' ''1800000000000''))) = 201"
  "status (fst (createOffer sample_env []
      (sample_request (JStr ''100'') ''save10'' ''1700000000000'' ''1800000000000''))) = 201"
  "status (fst (createOffer sample_env []
      (sample_request (JStr ''-1'') ''save10'' ''1700000000000'' ''1800000000000''))) = 400"
  "status (fst (createOffer sample_env []
      (sample_request (JStr ''101'') ''save10'' ''1700000000000'' ''1800000000000''))) = 400"
proof -
  have iff: "status (fst (createOffer sample_env []
        (sample_request (JStr s) ''save10'' ''1700000000000'' ''1800000000000''))) = 201
      \<longleftrightarrow> discount_in_range (JStr s)"
    and no: "\<not> discount_in_range (JStr s) \<Longrightarrow> status (fst (createOffer sample_env []
        (sample_request (JStr s) ''save10'' ''1700000000000'' ''1800000000000''))) = 400"
    if "s \<noteq> []" for s
  proof -
    define req where
      "req = sample_request (JStr s) ''save10'' ''1700000000000'' ''1800000000000''"
    have dates: "dates_in_order (runtime_of sample_env) (req_body req ''validFrom'')
        (req_body req ''validUntil'')"
      unfolding req_def by (simp add: dates_in_order_def sample_request_dates)
    have given: "truthy (req_body req ''discount'')" "truthy (req_body req ''validFrom'')"
      "truthy (req_body req ''validUntil'')"
      unfolding req_def using that by (simp_all add: sample_request_discount sample_request_dates)
    have other: "other_checks_pass sample_env [] req"
      unfolding req_def by (rule sample_request_checks)
    note facts = create_iff_discount_in_range [OF other given dates]
    show "status (fst (createOffer sample_env []
        (sample_request (JStr s) ''save10'' ''1700000000000'' ''1800000000000''))) = 201
      \<longleftrightarrow> discount_in_range (JStr s)"
      using facts(1) unfolding req_def sample_request_discount .
    show "status (fst (createOffer sample_env []
        (sample_request (JStr s) ''save10'' ''1700000000000'' ''1800000000000''))) = 400"
      if "\<not> discount_in_range (JStr s)"
      using facts(2) that unfolding req_def sample_request_discount by simp
  qed
  show "status (fst (createOffer sample_env []
      (sample_request (JStr ''0'') ''save10'' ''1700000000000'' ''1800000000000''))) = 201"
    using iff [of "''0''"] discount_in_range_examples(1) by simp
  show "status (fst (createOffer sample_env []
      (sample_request (JStr ''100'') ''save10'' ''1700000000000'' ''1800000000000''))) = 201"
    using iff [of "''100''"] discount_in_range_examples(3) by simp
  show "status (fst (createOffer sample_env []
      (sample_request (JStr ''-1'') ''save10'' ''1700000000000'' ''1800000000000''))) = 400"
    using no [of "''-1''"] discount_in_range_examples(4) by simp
  show "status (fst (createOffer sample_env []
      (sample_request (JStr ''101'') ''save10'' ''1700000000000'' ''1800000000000''))) = 400"
    using no [of "''101''"] discount_in_range_examples(5) by simp
qed

text \<open>
  C1. The claim fails for a discount given as the number 0, as a JSON body gives it: the
  required-fields check \<open>!discount\<close> takes the number 0 for a missing field and answers
  with status 400, before the range check, which accepts 0, is reached. The same request
  with the discount as the string \<open>0\<close>, as a multipart body gives it, is stored.
\<close>

theorem create_rejects_number_zero:
  "createOffer sample_env []
      (sample_request (JNum (Fin 0)) ''save10'' ''1700000000000'' ''1800000000000'')
     = (Response 400 (Message ''Please provide all required fields''), [])
   \<and> discount_in_range (JNum (Fin 0))
   \<and> status (fst (createOffer sample_env []
        (sample_request (JStr ''0'') ''save10'' ''1700000000000'' ''1800000000000''))) = 201"
proof -
  have "\<not> truthy (req_body (sample_request (JNum (Fin 0)) ''save10'' ''1700000000000''
      ''1800000000000'') ''discount'')"
    by (simp add: sample_request_discount)
  then have "createOffer sample_env []
      (sample_request (JNum (Fin 0)) ''save10'' ''1700000000000'' ''1800000000000'')
     = (Response 400 (Message ''Please provide all required fields''), [])"
    unfolding createOffer_def Let_def by simp
  with discount_in_range_examples(6) create_discount_examples(1) show ?thesis
    by simp
qed

theorem create_rejects_number_zero_witness:
  "status (fst (createOffer sample_env []
      (sample_request (JNum (Fin 0)) ''save10'' ''1700000000000'' ''1800000000000''))) = 400
   \<and> snd (createOffer sample_env []
      (sample_request (JNum (Fin 0)) ''save10'' ''1700000000000'' ''1800000000000'')) = []"
  using create_rejects_number_zero by simp

section \<open>Listing the active offers\<close>

text \<open>
  C7. The public listing holds an offer exactly when the offer is stored, its
  \<open>isActive\<close> is true and the instant of the query lies between its \<open>validFrom\<close> and
  its \<open>validUntil\<close>, both ends included; an offer whose \<open>validUntil\<close> has passed is not
  listed even when it is active.
\<close>

theorem active_listing_iff:
  "getActiveOffers now store = Response 200 (OffersJson (active_offers now store))
   \<and> (\<forall>x. x \<in> set (active_offers now store) \<longleftrightarrow>
          x \<in> set store \<and> isActive x = Some True \<and> validFrom x \<le> now \<and> now \<le> validUntil x)
   \<and> (\<forall>x \<in> set store. isActive x = Some True \<and> validUntil x < now \<longrightarrow>
          x \<notin> set (active_offers now store))"
  by (auto simp: getActiveOffers_def active_offers_def)

theorem active_listing_iff_witness:
  "sample_offer 1 ''OLD'' 1600000000000 1650000000000 \<notin>
     set (active_offers 1700000000000
       [sample_offer 1 ''OLD'' 1600000000000 1650000000000,
        sample_offer 2 ''NOW'' 1690000000000 1700000000000])
   \<and> sample_offer 2 ''NOW'' 1690000000000 1700000000000 \<in>
     set (active_offers 1700000000000
       [sample_offer 1 ''OLD'' 1600000000000 1650000000000,
        sample_offer 2 ''NOW'' 1690000000000 1700000000000])
   \<and> isActive (sample_offer 1 ''OLD'' 1600000000000 1650000000000) = Some True"
  using active_listing_iff [of 1700000000000
      "[sample_offer 1 ''OLD'' 1600000000000 1650000000000,
        sample_offer 2 ''NOW'' 1690000000000 1700000000000]"]
  by (simp add: sample_offer_def)

section \<open>Codes are unique whatever the case of their letters\<close>












lemma Offer_save_Inr:
  assumes "Offer_save e store errors old doc = Inr (saved, store')"
  shows "store' = map (\<lambda>x. if offer_id x = offer_id doc then saved else x) store"
    and "saved = doc \<or> saved = doc \<lparr> offer_updatedAt := clock e \<rparr>"
    and "errors = []"
    and "\<forall>x \<in> set store. offer_id x \<noteq> offer_id doc \<longrightarrow> code x \<noteq> code doc"
  using assms by (auto simp: Offer_save_def Let_def split: if_splits)





















section \<open>Updating an offer\<close>

lemma find_None_code_ne:
  "Offer_findOne_code_ne store c i = None \<longleftrightarrow>
     (\<forall>x \<in> set store. code x = c \<longrightarrow> offer_id x = i)"
  by (auto simp: Offer_findOne_code_ne_def find_None_iff)

lemma patch_errors_Nil:
  assumes "patch_errors rt b = []"
  shows "truthy (b ''validFrom'') \<Longrightarrow> new_Date rt (b ''validFrom'') \<noteq> None"
    and "truthy (b ''validUntil'') \<Longrightarrow> new_Date rt (b ''validUntil'') \<noteq> None"
    and "b ''isActive'' \<noteq> Undefined \<Longrightarrow> cast_Boolean (b ''isActive'') \<noteq> None"
  using assms by (auto simp: patch_errors_def split: if_splits)

lemma upload_image_Inl: "upload_image e f = Inl failed \<Longrightarrow> status failed = 500"
  by (cases "cloudinary_upload e f") (auto simp: upload_image_def split: if_splits)

text \<open>The document that a successful update stores and answers with.\<close>

lemma updateOffer_saved:
  assumes found: "Offer_findById store ident = Some old"
    and ok: "updateOffer e store ident req = (Response 200 (OfferJson new), store')"
  obtains img cid doc where
    "doc = (patch_fields (runtime_of e) (req_body req) old)
             \<lparr> offer_image := img, cloudinary_id := cid \<rparr>"
    "req_file req = None \<longrightarrow> img = offer_image old \<and> cid = cloudinary_id old"
    "new = doc \<or> new = doc \<lparr> offer_updatedAt := clock e \<rparr>"
    "patch_errors (runtime_of e) (req_body req) = []"
    "code_conflict (runtime_of e) store old (req_body req ''code'') = None"
    "store' = map (\<lambda>x. if offer_id x = offer_id doc then new else x) store"
proof (cases "code_conflict (runtime_of e) store old (req_body req ''code'')")
  case (Some refused)
  with found ok have "refused = Response 200 (OfferJson new)"
    by (simp add: updateOffer_def)
  moreover from Some have "status refused = 400 \<or> status refused = 500"
    by (cases "req_body req ''code''") (auto simp: code_conflict_def split: if_splits)
  ultimately have False by auto
  then show ?thesis ..
next
  case no_conflict: None
  show ?thesis
  proof (cases "case req_file req of None \<Rightarrow> Inr (offer_image old, cloudinary_id old)
      | Some f \<Rightarrow> upload_image e f")
    case (Inl failed)
    with found ok no_conflict have "failed = Response 200 (OfferJson new)"
      by (simp add: updateOffer_def)
    moreover from Inl have "status failed = 500"
      by (cases "req_file req") (simp_all add: upload_image_Inl)
    ultimately have False by simp
    then show ?thesis ..
  next
    case (Inr uploaded)
    obtain img cid where u: "uploaded = (img, cid)" by (cases uploaded)
    define doc where "doc = (patch_fields (runtime_of e) (req_body req) old)
                   \<lparr> offer_image := img, cloudinary_id := cid \<rparr>"
    from Inr u have kept: "req_file req = None \<longrightarrow> img = offer_image old \<and> cid = cloudinary_id old"
      by (auto split: option.splits)
    show ?thesis
    proof (cases "Offer_save e store (patch_errors (runtime_of e) (req_body req)) old doc")
      case (Inl err)
      with found ok no_conflict Inr u have False
        by (cases err) (simp_all add: updateOffer_def Let_def doc_def)
      then show ?thesis ..
    next
      case saved: (Inr result)
      obtain s st where r: "result = (s, st)" by (cases result)
      with found ok no_conflict Inr u saved have "s = new" "st = store'"
        by (simp_all add: updateOffer_def Let_def doc_def)
      with saved r have "Offer_save e store (patch_errors (runtime_of e) (req_body req)) old doc
          = Inr (new, store')"
        by simp
      note facts = Offer_save_Inr [OF this]
      show ?thesis
        by (rule that [OF doc_def kept facts(2,3) no_conflict facts(1)])
    qed
  qed
qed

text \<open>
  An update without a file is stored when the code of the request, if one is given, is the
  code of no other offer, and the values given for the discount, the dates, the active flag
  and the minimum amount are values that the schema takes.
\<close>

lemma updateOffer_succeeds:
  assumes found: "Offer_findById store ident = Some old"
    and nofile: "req_file req = None"
    and code: "case req_body req ''code'' of
        JStr c \<Rightarrow> c = [] \<or> (\<forall>x \<in> set store. offer_id x \<noteq> offer_id old \<longrightarrow>
            code x \<noteq> toUpperCase (runtime_of e) c
            \<and> code x \<noteq> toUpperCase (runtime_of e) (toUpperCase (runtime_of e) c))
      | v \<Rightarrow> \<not> truthy v"
    and own: "\<forall>x \<in> set store. offer_id x \<noteq> offer_id old \<longrightarrow> code x \<noteq> code old"
    and disc: "req_body req ''discount'' = Undefined \<or> discount_in_range (req_body req ''discount'')"
    and vf: "truthy (req_body req ''validFrom'') \<longrightarrow>
        new_Date (runtime_of e) (req_body req ''validFrom'') \<noteq> None"
    and vu: "truthy (req_body req ''validUntil'') \<longrightarrow>
        new_Date (runtime_of e) (req_body req ''validUntil'') \<noteq> None"
    and active: "req_body req ''isActive'' \<noteq> Undefined \<longrightarrow>
        cast_Boolean (req_body req ''isActive'') \<noteq> None"
    and amount: "req_body req ''minOrderAmount'' = Undefined
        \<or> parseFloat (req_body req ''minOrderAmount'') \<noteq> NaN"
  shows "\<exists>new store'. updateOffer e store ident req = (Response 200 (OfferJson new), store')"
proof -
  define doc where "doc = (patch_fields (runtime_of e) (req_body req) old)
      \<lparr> offer_image := offer_image old, cloudinary_id := cloudinary_id old \<rparr>"
  have no_conflict: "code_conflict (runtime_of e) store old (req_body req ''code'') = None"
    using code
    by (cases "req_body req ''code''") (auto simp: code_conflict_def find_None_code_ne)
  have range: "req_body req ''discount'' \<noteq> Undefined \<longrightarrow>
      \<not> (parseFloat (req_body req ''discount'') = NaN
        \<or> js_lt (parseFloat (req_body req ''discount'')) (Fin 0)
        \<or> js_gt (parseFloat (req_body req ''discount'')) (Fin 100))"
    using disc
    by (cases "parseFloat (req_body req ''discount'')")
       (auto simp: discount_in_range_def js_gt_def)
  have valid: "patch_errors (runtime_of e) (req_body req) = []"
    unfolding patch_errors_def using range vf vu active amount by auto
  have id: "offer_id doc = offer_id old"
    by (simp add: doc_def patch_fields_def)
  have "code doc = code old \<or> (\<exists>c. req_body req ''code'' = JStr c \<and> c \<noteq> []
      \<and> code doc = toUpperCase (runtime_of e) (toUpperCase (runtime_of e) c))"
    by (cases "req_body req ''code''") (auto simp: doc_def patch_fields_def)
  then have unique: "\<not> (\<exists>x \<in> set store. offer_id x \<noteq> offer_id doc \<and> code x = code doc)"
  proof
    assume "code doc = code old"
    with own id show ?thesis by auto
  next
    assume "\<exists>c. req_body req ''code'' = JStr c \<and> c \<noteq> []
      \<and> code doc = toUpperCase (runtime_of e) (toUpperCase (runtime_of e) c)"
    then obtain c where c: "req_body req ''code'' = JStr c" "c \<noteq> []"
      "code doc = toUpperCase (runtime_of e) (toUpperCase (runtime_of e) c)"
      by blast
    with code have "\<forall>x \<in> set store. offer_id x \<noteq> offer_id old \<longrightarrow>
        code x \<noteq> toUpperCase (runtime_of e) (toUpperCase (runtime_of e) c)"
      by simp
    with c(3) id show ?thesis by auto
  qed
  obtain saved where "Offer_save e store [] old doc =
      Inr (saved, map (\<lambda>x. if offer_id x = offer_id doc then saved else x) store)"
    using unique by (simp add: Offer_save_def Let_def)
  then have "updateOffer e store ident req =
      (Response 200 (OfferJson saved),
       map (\<lambda>x. if offer_id x = offer_id doc then saved else x) store)"
    unfolding updateOffer_def Let_def
    by (simp add: found no_conflict nofile valid doc_def)
  then show ?thesis by blast
qed

text \<open>
  C8. A successful update stores, for each field of the request, the value given, when
  the handler takes the field as given (a title, a description, a code or a date that is
  truthy, so not the empty string; a discount, an active flag or a minimum amount that is
  not undefined), converted as the handler and the schema convert it, and keeps the value
  the offer had for every other field, those that the request does not have among them;
  the image changes with an uploaded file only, and the other offers are left as they
  were. A request without a file whose values the schema takes and whose code no other
  offer has is a successful one. A code that another offer has (the look-up leaves out
  the offer's own id) is answered with status 400 and the collection is unchanged; a code
  that only the offer itself has is no conflict.
\<close>

theorem update_patches_given_fields:
  assumes found: "Offer_findById store ident = Some old"
  shows "(updateOffer e store ident req = (Response 200 (OfferJson new), store') \<longrightarrow>
       title new = (if truthy (req_body req ''title'')
                    then cast_String (runtime_of e) (req_body req ''title'') else title old)
     \<and> (\<forall>t. req_body req ''title'' = JStr t \<longrightarrow> title new = (if t = [] then title old else t))
     \<and> description new = (if truthy (req_body req ''description'')
                    then cast_String (runtime_of e) (req_body req ''description'')
                    else description old)
     \<and> (\<forall>t. req_body req ''description'' = JStr t \<longrightarrow>
          description new = (if t = [] then description old else t))
     \<and> discount new = (if req_body req ''discount'' \<noteq> Undefined
                    then parseFloat (req_body req ''discount'') else discount old)
     \<and> code new = (case req_body req ''code'' of
                     JStr c \<Rightarrow> if c \<noteq> []
                       then toUpperCase (runtime_of e) (toUpperCase (runtime_of e) c)
                       else code old
                   | _ \<Rightarrow> code old)
     \<and> (if truthy (req_body req ''validFrom'')
        then new_Date (runtime_of e) (req_body req ''validFrom'') = Some (validFrom new)
        else validFrom new = validFrom old)
     \<and> (if truthy (req_body req ''validUntil'')
        then new_Date (runtime_of e) (req_body req ''validUntil'') = Some (validUntil new)
        else validUntil new = validUntil old)
     \<and> (if req_body req ''isActive'' \<noteq> Undefined
        then cast_Boolean (req_body req ''isActive'') = Some (isActive new)
        else isActive new = isActive old)
     \<and> (\<forall>b. req_body req ''isActive'' = JBool b \<longrightarrow> isActive new = Some b)
     \<and> (req_body req ''isActive'' = JStr ''true'' \<longrightarrow> isActive new = Some True)
     \<and> (req_body req ''isActive'' = JStr ''false'' \<longrightarrow> isActive new = Some False)
     \<and> minOrderAmount new = (if req_body req ''minOrderAmount'' \<noteq> Undefined
                    then parseFloat (req_body req ''minOrderAmount'') else minOrderAmount old)
     \<and> (req_file req = None \<longrightarrow>
          offer_image new = offer_image old \<and> cloudinary_id new = cloudinary_id old)
     \<and> offer_id new = offer_id old \<and> offer_createdAt new = offer_createdAt old
     \<and> ((\<forall>k \<in> {''title'', ''description'', ''discount'', ''code'', ''validFrom'', ''validUntil'',
                ''isActive'', ''minOrderAmount''}. req_body req k = Undefined)
         \<longrightarrow> new \<lparr> offer_updatedAt := offer_updatedAt old,
                    offer_image := offer_image old, cloudinary_id := cloudinary_id old \<rparr> = old)
     \<and> store' = map (\<lambda>x. if offer_id x = offer_id old then new else x) store)
   \<and> (req_file req = None
        \<and> (case req_body req ''code'' of
             JStr c \<Rightarrow> c = [] \<or> (\<forall>x \<in> set store. offer_id x \<noteq> offer_id old \<longrightarrow>
               code x \<noteq> toUpperCase (runtime_of e) c
               \<and> code x \<noteq> toUpperCase (runtime_of e) (toUpperCase (runtime_of e) c))
           | v \<Rightarrow> \<not> truthy v)
        \<and> (\<forall>x \<in> set store. offer_id x \<noteq> offer_id old \<longrightarrow> code x \<noteq> code old)
        \<and> (req_body req ''discount'' = Undefined \<or> discount_in_range (req_body req ''discount''))
        \<and> (truthy (req_body req ''validFrom'') \<longrightarrow>
             new_Date (runtime_of e) (req_body req ''validFrom'') \<noteq> None)
        \<and> (truthy (req_body req ''validUntil'') \<longrightarrow>
             new_Date (runtime_of e) (req_body req ''validUntil'') \<noteq> None)
        \<and> (req_body req ''isActive'' \<noteq> Undefined \<longrightarrow>
             cast_Boolean (req_body req ''isActive'') \<noteq> None)
        \<and> (req_body req ''minOrderAmount'' = Undefined
             \<or> parseFloat (req_body req ''minOrderAmount'') \<noteq> NaN)
       \<longrightarrow> (\<exists>doc stored. updateOffer e store ident req = (Response 200 (OfferJson doc), stored)))
   \<and> (\<forall>c. req_body req ''code'' = JStr c \<and> c \<noteq> []
          \<and> (\<exists>x \<in> set store. offer_id x \<noteq> offer_id old \<and> code x = toUpperCase (runtime_of e) c) \<longrightarrow>
          updateOffer e store ident req =
            (Response 400 (Message ''Offer code already exists''), store))
   \<and> (\<forall>c. req_body req ''code'' = JStr c
          \<and> (\<forall>x \<in> set store. code x = toUpperCase (runtime_of e) c \<longrightarrow> offer_id x = offer_id old) \<longrightarrow>
          fst (updateOffer e store ident req) \<noteq>
            Response 400 (Message ''Offer code already exists''))"
proof (intro conjI impI allI)
  fix c
  assume "req_body req ''code'' = JStr c \<and> c \<noteq> []
          \<and> (\<exists>x \<in> set store. offer_id x \<noteq> offer_id old \<and> code x = toUpperCase (runtime_of e) c)"
  then have "code_conflict (runtime_of e) store old (req_body req ''code'') =
      Some (Response 400 (Message ''Offer code already exists''))"
    by (auto simp: code_conflict_def find_None_code_ne)
  with found show "updateOffer e store ident req =
      (Response 400 (Message ''Offer code already exists''), store)"
    by (simp add: updateOffer_def)
next
  fix c
  assume "req_body req ''code'' = JStr c
          \<and> (\<forall>x \<in> set store. code x = toUpperCase (runtime_of e) c \<longrightarrow> offer_id x = offer_id old)"
  then have no: "code_conflict (runtime_of e) store old (req_body req ''code'') = None"
    by (auto simp: code_conflict_def find_None_code_ne)
  show "fst (updateOffer e store ident req) \<noteq>
      Response 400 (Message ''Offer code already exists'')"
  proof (cases "case req_file req of None \<Rightarrow> Inr (offer_image old, cloudinary_id old)
      | Some f \<Rightarrow> upload_image e f")
    case (Inl failed)
    then have "status failed = 500"
      by (cases "req_file req") (simp_all add: upload_image_Inl)
    moreover from Inl found no have "fst (updateOffer e store ident req) = failed"
      by (simp add: updateOffer_def)
    ultimately show ?thesis by auto
  next
    case (Inr uploaded)
    obtain img cid where u: "uploaded = (img, cid)" by (cases uploaded)
    define doc where "doc = (patch_fields (runtime_of e) (req_body req) old)
                   \<lparr> offer_image := img, cloudinary_id := cid \<rparr>"
    show ?thesis
    proof (cases "Offer_save e store (patch_errors (runtime_of e) (req_body req)) old doc")
      case (Inl err)
      with found no Inr u have "status (fst (updateOffer e store ident req)) = 500"
        by (cases err) (simp_all add: updateOffer_def Let_def doc_def)
      then show ?thesis by auto
    next
      case saved: (Inr result)
      obtain s st where "result = (s, st)" by (cases result)
      with found no Inr u saved have "status (fst (updateOffer e store ident req)) = 200"
        by (simp add: updateOffer_def Let_def doc_def)
      then show ?thesis by auto
    qed
  qed
next
  assume "req_file req = None
        \<and> (case req_body req ''code'' of
             JStr c \<Rightarrow> c = [] \<or> (\<forall>x \<in> set store. offer_id x \<noteq> offer_id old \<longrightarrow>
               code x \<noteq> toUpperCase (runtime_of e) c
               \<and> code x \<noteq> toUpperCase (runtime_of e) (toUpperCase (runtime_of e) c))
           | v \<Rightarrow> \<not> truthy v)
        \<and> (\<forall>x \<in> set store. offer_id x \<noteq> offer_id old \<longrightarrow> code x \<noteq> code old)
        \<and> (req_body req ''discount'' = Undefined \<or> discount_in_range (req_body req ''discount''))
        \<and> (truthy (req_body req ''validFrom'') \<longrightarrow>
             new_Date (runtime_of e) (req_body req ''validFrom'') \<noteq> None)
        \<and> (truthy (req_body req ''validUntil'') \<longrightarrow>
             new_Date (runtime_of e) (req_body req ''validUntil'') \<noteq> None)
        \<and> (req_body req ''isActive'' \<noteq> Undefined \<longrightarrow>
             cast_Boolean (req_body req ''isActive'') \<noteq> None)
        \<and> (req_body req ''minOrderAmount'' = Undefined
             \<or> parseFloat (req_body req ''minOrderAmount'') \<noteq> NaN)"
  then show "\<exists>doc stored. updateOffer e store ident req = (Response 200 (OfferJson doc), stored)"
    by (intro updateOffer_succeeds [OF found]) simp_all
next
  assume ok: "updateOffer e store ident req = (Response 200 (OfferJson new), store')"
  from found ok obtain img cid doc where
    doc: "doc = (patch_fields (runtime_of e) (req_body req) old)
                   \<lparr> offer_image := img, cloudinary_id := cid \<rparr>"
    and kept: "req_file req = None \<longrightarrow> img = offer_image old \<and> cid = cloudinary_id old"
    and new: "new = doc \<or> new = doc \<lparr> offer_updatedAt := clock e \<rparr>"
    and valid: "patch_errors (runtime_of e) (req_body req) = []"
    and store': "store' = map (\<lambda>x. if offer_id x = offer_id doc then new else x) store"
    by (rule updateOffer_saved)
  note cast = patch_errors_Nil [OF valid]
  from new show "title new = (if truthy (req_body req ''title'')
                    then cast_String (runtime_of e) (req_body req ''title'') else title old)"
    by (auto simp: doc patch_fields_def)
  from new show "title new = (if t = [] then title old else t)"
    if "req_body req ''title'' = JStr t" for t
    using that by (auto simp: doc patch_fields_def)
  from new show "description new = (if truthy (req_body req ''description'')
                    then cast_String (runtime_of e) (req_body req ''description'')
                    else description old)"
    by (auto simp: doc patch_fields_def)
  from new show "description new = (if t = [] then description old else t)"
    if "req_body req ''description'' = JStr t" for t
    using that by (auto simp: doc patch_fields_def)
  from new show "discount new = (if req_body req ''discount'' \<noteq> Undefined
                    then parseFloat (req_body req ''discount'') else discount old)"
    by (auto simp: doc patch_fields_def)
  from new show "code new = (case req_body req ''code'' of
                     JStr c \<Rightarrow> if c \<noteq> []
                       then toUpperCase (runtime_of e) (toUpperCase (runtime_of e) c)
                       else code old
                   | _ \<Rightarrow> code old)"
    by (auto simp: doc patch_fields_def)
  from new cast(1) show "if truthy (req_body req ''validFrom'')
        then new_Date (runtime_of e) (req_body req ''validFrom'') = Some (validFrom new)
        else validFrom new = validFrom old"
    by (auto simp: doc patch_fields_def)
  from new cast(2) show "if truthy (req_body req ''validUntil'')
        then new_Date (runtime_of e) (req_body req ''validUntil'') = Some (validUntil new)
        else validUntil new = validUntil old"
    by (auto simp: doc patch_fields_def)
  from new cast(3) show active: "if req_body req ''isActive'' \<noteq> Undefined
        then cast_Boolean (req_body req ''isActive'') = Some (isActive new)
        else isActive new = isActive old"
    by (auto simp: doc patch_fields_def)
  from active show "isActive new = Some b" if "req_body req ''isActive'' = JBool b" for b
    using that by simp
  from active show "isActive new = Some True" if "req_body req ''isActive'' = JStr ''true''"
    using that by simp
  from active show "isActive new = Some False" if "req_body req ''isActive'' = JStr ''false''"
    using that by simp
  from new show "minOrderAmount new = (if req_body req ''minOrderAmount'' \<noteq> Undefined
                    then parseFloat (req_body req ''minOrderAmount'') else minOrderAmount old)"
    by (auto simp: doc patch_fields_def)
  from new kept show "offer_image new = offer_image old" if "req_file req = None"
    using that by (auto simp: doc)
  from new kept show "cloudinary_id new = cloudinary_id old" if "req_file req = None"
    using that by (auto simp: doc)
  from new show id: "offer_id new = offer_id old"
    by (auto simp: doc patch_fields_def)
  from new show "offer_createdAt new = offer_createdAt old"
    by (auto simp: doc patch_fields_def)
  from new show "new \<lparr> offer_updatedAt := offer_updatedAt old,
                    offer_image := offer_image old, cloudinary_id := cloudinary_id old \<rparr> = old"
    if "\<forall>k \<in> {''title'', ''description'', ''discount'', ''code'', ''validFrom'', ''validUntil'',
                ''isActive'', ''minOrderAmount''}. req_body req k = Undefined"
    using that by (auto simp: doc patch_fields_def)
  have "offer_id doc = offer_id old"
    by (simp add: doc patch_fields_def)
  with store' show "store' = map (\<lambda>x. if offer_id x = offer_id old then new else x) store"
    by simp
qed

lemma sample_patch_body:
  "req_body sample_patch ''title'' = JStr ''Dinner deal''"
  "req_body sample_patch ''description'' = Undefined"
  "req_body sample_patch ''discount'' = JStr ''25''"
  "req_body sample_patch ''code'' = JStr ''dinner''"
  "req_body sample_patch ''validFrom'' = Undefined"
  "req_body sample_patch ''validUntil'' = JStr ''1900000000000''"
  "req_body sample_patch ''isActive'' = JStr ''false''"
  "req_body sample_patch ''minOrderAmount'' = JNum (Fin 15)"
  "req_file sample_patch = None"
  by (simp_all add: sample_patch_def)

lemma sample_patch_values:
  "parseFloat (JStr ''25'') = Fin 25"
  "discount_in_range (JStr ''25'')"
  "new_Date (runtime_of sample_env) (JStr ''1900000000000'') = Some 1900000000000"
  "toUpperCase (runtime_of sample_env) ''dinner'' = ''DINNER''"
  "toUpperCase (runtime_of sample_env) ''DINNER'' = ''DINNER''"
  "toUpperCase (runtime_of sample_env) ''lunch'' = ''LUNCH''"
  "toUpperCase (runtime_of sample_env) ''save10'' = ''SAVE10''"
  "parseFloat_str ''25'' = Fin 25"
  by (simp_all add: discount_in_range_def sample_env_def sample_runtime_def string_eval_defs)

lemma sample_offers_old:
  "Offer_findById sample_offers 1 = Some (sample_offers ! 0)"
  "set sample_offers = {sample_offers ! 0, sample_offers ! 1}"
  "offer_id (sample_offers ! 0) = 1" "offer_id (sample_offers ! 1) = 2"
  "code (sample_offers ! 0) = ''SAVE10''" "code (sample_offers ! 1) = ''LUNCH''"
  by (auto simp: Offer_findById_def sample_offers_def sample_offer_def)

theorem update_patches_given_fields_witness:
  "(\<exists>new. updateOffer sample_env sample_offers 1 sample_patch
        = (Response 200 (OfferJson new), [new, sample_offers ! 1])
      \<and> title new = ''Dinner deal'' \<and> discount new = Fin 25 \<and> code new = ''DINNER''
      \<and> validUntil new = 1900000000000 \<and> isActive new = Some False
      \<and> minOrderAmount new = Fin 15
      \<and> description new = description (sample_offers ! 0)
      \<and> validFrom new = validFrom (sample_offers ! 0)
      \<and> offer_image new = offer_image (sample_offers ! 0))
   \<and> updateOffer sample_env sample_offers 1 (single_field ''code'' (JStr ''lunch''))
     = (Response 400 (Message ''Offer code already exists''), sample_offers)
   \<and> fst (updateOffer sample_env sample_offers 1 (single_field ''code'' (JStr ''save10'')))
       \<noteq> Response 400 (Message ''Offer code already exists'')"
proof -
  define old where "old = sample_offers ! 0"
  note found = sample_offers_old(1) [folded old_def]
  note inst = update_patches_given_fields [OF found, of sample_env]
  have "\<exists>doc stored. updateOffer sample_env sample_offers 1 sample_patch
      = (Response 200 (OfferJson doc), stored)"
  proof -
    have "req_file sample_patch = None
        \<and> (case req_body sample_patch ''code'' of
             JStr c \<Rightarrow> c = [] \<or> (\<forall>x \<in> set sample_offers. offer_id x \<noteq> offer_id old \<longrightarrow>
               code x \<noteq> toUpperCase (runtime_of sample_env) c
               \<and> code x \<noteq> toUpperCase (runtime_of sample_env)
                    (toUpperCase (runtime_of sample_env) c))
           | v \<Rightarrow> \<not> truthy v)
        \<and> (\<forall>x \<in> set sample_offers. offer_id x \<noteq> offer_id old \<longrightarrow> code x \<noteq> code old)
        \<and> (req_body sample_patch ''discount'' = Undefined
             \<or> discount_in_range (req_body sample_patch ''discount''))
        \<and> (truthy (req_body sample_patch ''validFrom'') \<longrightarrow>
             new_Date (runtime_of sample_env) (req_body sample_patch ''validFrom'') \<noteq> None)
        \<and> (truthy (req_body sample_patch ''validUntil'') \<longrightarrow>
             new_Date (runtime_of sample_env) (req_body sample_patch ''validUntil'') \<noteq> None)
        \<and> (req_body sample_patch ''isActive'' \<noteq> Undefined \<longrightarrow>
             cast_Boolean (req_body sample_patch ''isActive'') \<noteq> None)
        \<and> (req_body sample_patch ''minOrderAmount'' = Undefined
             \<or> parseFloat (req_body sample_patch ''minOrderAmount'') \<noteq> NaN)"
      unfolding sample_patch_body
      by (simp add: sample_patch_values old_def sample_offers_def sample_offer_def
          del: new_Date.simps)
    then show ?thesis
      by (rule inst [of sample_patch, THEN conjunct2, THEN conjunct1, THEN mp])
  qed
  then obtain new stored where ok: "updateOffer sample_env sample_offers 1 sample_patch
      = (Response 200 (OfferJson new), stored)"
    by blast
  note fields = inst [of sample_patch new stored, THEN conjunct1, rule_format, OF ok]
  note r1 = fields [THEN conjunct2]
  note r2 = r1 [THEN conjunct2]
  note r3 = r2 [THEN conjunct2]
  note r4 = r3 [THEN conjunct2]
  note r5 = r4 [THEN conjunct2]
  note r6 = r5 [THEN conjunct2]
  note r7 = r6 [THEN conjunct2]
  note r8 = r7 [THEN conjunct2]
  note r9 = r8 [THEN conjunct2]
  note r10 = r9 [THEN conjunct2]
  note r11 = r10 [THEN conjunct2]
  note r12 = r11 [THEN conjunct2]
  note r13 = r12 [THEN conjunct2]
  note r14 = r13 [THEN conjunct2]
  note r15 = r14 [THEN conjunct2]
  note r16 = r15 [THEN conjunct2]
  note r17 = r16 [THEN conjunct2]
  have stored: "stored = [new, sample_offers ! 1]"
    using r17 r14 [THEN conjunct1]
    by (simp add: sample_offers_def sample_offer_def old_def)
  have given: "title new = ''Dinner deal''" "discount new = Fin 25" "code new = ''DINNER''"
    "validUntil new = 1900000000000" "isActive new = Some False" "minOrderAmount new = Fin 15"
    "description new = description old" "validFrom new = validFrom old"
    "offer_image new = offer_image old"
  proof -
    from fields [THEN conjunct1] show "title new = ''Dinner deal''"
      unfolding sample_patch_body by simp
    from r4 [THEN conjunct1] show "discount new = Fin 25"
      unfolding sample_patch_body by (simp add: sample_patch_values)
    from r5 [THEN conjunct1] show "code new = ''DINNER''"
      unfolding sample_patch_body by (simp add: sample_patch_values)
    from r7 [THEN conjunct1] show "validUntil new = 1900000000000"
      unfolding sample_patch_body by (simp add: sample_patch_values del: new_Date.simps)
    from r11 [THEN conjunct1] show "isActive new = Some False"
      unfolding sample_patch_body by simp
    from r12 [THEN conjunct1] show "minOrderAmount new = Fin 15"
      unfolding sample_patch_body by simp
    from r2 [THEN conjunct1] show "description new = description old"
      unfolding sample_patch_body by simp
    from r6 [THEN conjunct1] show "validFrom new = validFrom old"
      unfolding sample_patch_body by simp
    from r13 [THEN conjunct1] show "offer_image new = offer_image old"
      unfolding sample_patch_body by simp
  qed
  have first: "\<exists>new. updateOffer sample_env sample_offers 1 sample_patch
        = (Response 200 (OfferJson new), [new, sample_offers ! 1])
      \<and> title new = ''Dinner deal'' \<and> discount new = Fin 25 \<and> code new = ''DINNER''
      \<and> validUntil new = 1900000000000 \<and> isActive new = Some False
      \<and> minOrderAmount new = Fin 15
      \<and> description new = description (sample_offers ! 0)
      \<and> validFrom new = validFrom (sample_offers ! 0)
      \<and> offer_image new = offer_image (sample_offers ! 0)"
    using ok stored given unfolding old_def by (intro exI [of _ new]) simp
  have conflict: "updateOffer sample_env sample_offers 1 (single_field ''code'' (JStr ''lunch''))
     = (Response 400 (Message ''Offer code already exists''), sample_offers)"
  proof -
    have "req_body (single_field ''code'' (JStr ''lunch'')) ''code'' = JStr ''lunch''
        \<and> ''lunch'' \<noteq> []
        \<and> (\<exists>x \<in> set sample_offers. offer_id x \<noteq> offer_id old
             \<and> code x = toUpperCase (runtime_of sample_env) ''lunch'')"
      by (simp add: single_field_def sample_patch_values old_def sample_offers_def
          sample_offer_def)
    then show ?thesis
      by (rule inst [of "single_field ''code'' (JStr ''lunch'')",
            THEN conjunct2, THEN conjunct2, THEN conjunct1, rule_format])
  qed
  have own: "fst (updateOffer sample_env sample_offers 1
      (single_field ''code'' (JStr ''save10'')))
       \<noteq> Response 400 (Message ''Offer code already exists'')"
  proof -
    have "req_body (single_field ''code'' (JStr ''save10'')) ''code'' = JStr ''save10''
        \<and> (\<forall>x \<in> set sample_offers. code x = toUpperCase (runtime_of sample_env) ''save10''
              \<longrightarrow> offer_id x = offer_id old)"
      by (simp add: single_field_def sample_patch_values old_def sample_offers_def
          sample_offer_def)
    then show ?thesis
      by (rule inst [of "single_field ''code'' (JStr ''save10'')",
            THEN conjunct2, THEN conjunct2, THEN conjunct2, rule_format])
  qed
  from first conflict own show ?thesis by (intro conjI)
qed

text \<open>
  A title that the request has as the empty string is not stored: the update is answered
  with status 200 and the offer is as it was.
\<close>

theorem update_keeps_empty_title:
  "updateOffer sample_env sample_offers 1 (single_field ''title'' (JStr ''''))
     = (Response 200 (OfferJson (sample_offers ! 0)), sample_offers)
   \<and> req_body (single_field ''title'' (JStr '''')) ''title'' = JStr ''''
   \<and> title (sample_offers ! 0) = ''Lunch deal''"
  unfolding updateOffer_def sample_offers_old(1)
  by (simp add: code_conflict_def patch_fields_def patch_errors_def Offer_save_def Let_def
      single_field_def sample_offers_def sample_offer_def sample_env_def)

section \<open>The lines of the receipt\<close>

lemma clean_append: "clean n a \<Longrightarrow> clean n b \<Longrightarrow> clean n (a @ b)"
proof (induction a)
  case Nil
  then show ?case by simp
next
  case (Cons c cs)
  have "prefix n ((c # cs) @ b)" if "prefix n (c # cs)"
    using that by (rule prefix_prefix)
  moreover have "\<not> prefix ((c # cs) @ b) n" if "\<not> prefix (c # cs) n"
    using that append_prefixD [of "c # cs" b n] by blast
  ultimately show ?case
    using Cons by auto
qed

lemma occs_clean_append:
  "clean n a \<Longrightarrow> occs n (a @ b) = occs n a + occs n b"
proof (induction a)
  case Nil
  then show ?case by simp
next
  case (Cons c cs)
  then have "prefix n ((c # cs) @ b) \<longleftrightarrow> prefix n (c # cs)"
    by (cases n) (auto simp: prefix_append)
  with Cons show ?case by simp
qed

lemmas receipt_text_defs =
  receipt_text_0_def receipt_text_1_def receipt_text_2_def receipt_text_3_def
  receipt_text_4_def receipt_text_5_def receipt_text_6_def receipt_text_7_def
  receipt_text_8_def receipt_text_9_def receipt_text_10_def receipt_text_11_def

lemma receipt_texts_clean_addr:
  \<open>clean ''<strong>Address:</strong>'' receipt_text_0\<close>
  \<open>clean ''<strong>Address:</strong>'' receipt_text_1\<close>
  \<open>clean ''<strong>Address:</strong>'' receipt_text_2\<close>
  \<open>clean ''<strong>Address:</strong>'' receipt_text_3\<close>
  \<open>clean ''<strong>Address:</strong>'' receipt_text_4\<close>
  \<open>clean ''<strong>Address:</strong>'' receipt_text_5\<close>
  \<open>clean ''<strong>Address:</strong>'' receipt_text_6\<close>
  \<open>clean ''<strong>Address:</strong>'' receipt_text_7\<close>
  \<open>clean ''<strong>Address:</strong>'' receipt_text_8\<close>
  \<open>clean ''<strong>Address:</strong>'' receipt_text_9\<close>
  \<open>clean ''<strong>Address:</strong>'' receipt_text_10\<close>
  \<open>clean ''<strong>Address:</strong>'' receipt_text_11\<close>
  unfolding receipt_text_defs by ((intro clean_append)?; simp)+

lemma receipt_texts_occs_addr:
  \<open>occs ''<strong>Address:</strong>'' receipt_text_0 = 0\<close>
  \<open>occs ''<strong>Address:</strong>'' receipt_text_1 = 0\<close>
  \<open>occs ''<strong>Address:</strong>'' receipt_text_2 = 0\<close>
  \<open>occs ''<strong>Address:</strong>'' receipt_text_3 = 0\<close>
  \<open>occs ''<strong>Address:</strong>'' receipt_text_4 = 0\<close>
  \<open>occs ''<strong>Address:</strong>'' receipt_text_5 = 0\<close>
  \<open>occs ''<strong>Address:</strong>'' receipt_text_6 = 0\<close>
  \<open>occs ''<strong>Address:</strong>'' receipt_text_7 = 0\<close>
  \<open>occs ''<strong>Address:</strong>'' receipt_text_8 = 0\<close>
  \<open>occs ''<strong>Address:</strong>'' receipt_text_9 = 0\<close>
  \<open>occs ''<strong>Address:</strong>'' receipt_text_10 = 0\<close>
  \<open>occs ''<strong>Address:</strong>'' receipt_text_11 = 0\<close>
  unfolding receipt_text_defs by (simp_all add: occs_clean_append del: append.simps)

lemma receipt_texts_clean_tr:
  \<open>clean ''<tr>'' receipt_text_0\<close>
  \<open>clean ''<tr>'' receipt_text_1\<close>
  \<open>clean ''<tr>'' receipt_text_2\<close>
  \<open>clean ''<tr>'' receipt_text_3\<close>
  \<open>clean ''<tr>'' receipt_text_4\<close>
  \<open>clean ''<tr>'' receipt_text_5\<close>
  \<open>clean ''<tr>'' receipt_text_6\<close>
  \<open>clean ''<tr>'' receipt_text_7\<close>
  \<open>clean ''<tr>'' receipt_text_8\<close>
  \<open>clean ''<tr>'' receipt_text_9\<close>
  \<open>clean ''<tr>'' receipt_text_10\<close>
  \<open>clean ''<tr>'' receipt_text_11\<close>
  unfolding receipt_text_defs by ((intro clean_append)?; simp)+

lemma receipt_texts_occs_tr:
  \<open>occs ''<tr>'' receipt_text_0 = 0\<close>
  \<open>occs ''<tr>'' receipt_text_1 = 0\<close>
  \<open>occs ''<tr>'' receipt_text_2 = 0\<close>
  \<open>occs ''<tr>'' receipt_text_3 = 0\<close>
  \<open>occs ''<tr>'' receipt_text_4 = 0\<close>
  \<open>occs ''<tr>'' receipt_text_5 = 0\<close>
  \<open>occs ''<tr>'' receipt_text_6 = 0\<close>
  \<open>occs ''<tr>'' receipt_text_7 = 0\<close>
  \<open>occs ''<tr>'' receipt_text_8 = 1\<close>
  \<open>occs ''<tr>'' receipt_text_9 = 0\<close>
  \<open>occs ''<tr>'' receipt_text_10 = 0\<close>
  \<open>occs ''<tr>'' receipt_text_11 = 0\<close>
  unfolding receipt_text_defs by (simp_all add: occs_clean_append del: append.simps)

lemma receipt_texts_clean_sub:
  \<open>clean ''<p>Subtotal: $'' receipt_text_0\<close>
  \<open>clean ''<p>Subtotal: $'' receipt_text_1\<close>
  \<open>clean ''<p>Subtotal: $'' receipt_text_2\<close>
  \<open>clean ''<p>Subtotal: $'' receipt_text_3\<close>
  \<open>clean ''<p>Subtotal: $'' receipt_text_4\<close>
  \<open>clean ''<p>Subtotal: $'' receipt_text_5\<close>
  \<open>clean ''<p>Subtotal: $'' receipt_text_6\<close>
  \<open>clean ''<p>Subtotal: $'' receipt_text_7\<close>
  \<open>clean ''<p>Subtotal: $'' receipt_text_8\<close>
  \<open>clean ''<p>Subtotal: $'' receipt_text_9\<close>
  \<open>clean ''<p>Subtotal: $'' receipt_text_10\<close>
  \<open>clean ''<p>Subtotal: $'' receipt_text_11\<close>
  unfolding receipt_text_defs by ((intro clean_append)?; simp)+

lemma receipt_texts_occs_sub:
  \<open>occs ''<p>Subtotal: $'' receipt_text_0 = 0\<close>
  \<open>occs ''<p>Subtotal: $'' receipt_text_1 = 0\<close>
  \<open>occs ''<p>Subtotal: $'' receipt_text_2 = 0\<close>
  \<open>occs ''<p>Subtotal: $'' receipt_text_3 = 0\<close>
  \<open>occs ''<p>Subtotal: $'' receipt_text_4 = 0\<close>
  \<open>occs ''<p>Subtotal: $'' receipt_text_5 = 0\<close>
  \<open>occs ''<p>Subtotal: $'' receipt_text_6 = 0\<close>
  \<open>occs ''<p>Subtotal: $'' receipt_text_7 = 0\<close>
  \<open>occs ''<p>Subtotal: $'' receipt_text_8 = 0\<close>
  \<open>occs ''<p>Subtotal: $'' receipt_text_9 = 0\<close>
  \<open>occs ''<p>Subtotal: $'' receipt_text_10 = 0\<close>
  \<open>occs ''<p>Subtotal: $'' receipt_text_11 = 0\<close>
  unfolding receipt_text_defs by (simp_all add: occs_clean_append del: append.simps)

lemma receipt_texts_clean_del:
  \<open>clean ''<p>Delivery Charge: $'' receipt_text_0\<close>
  \<open>clean ''<p>Delivery Charge: $'' receipt_text_1\<close>
  \<open>clean ''<p>Delivery Charge: $'' receipt_text_2\<close>
  \<open>clean ''<p>Delivery Charge: $'' receipt_text_3\<close>
  \<open>clean ''<p>Delivery Charge: $'' receipt_text_4\<close>
  \<open>clean ''<p>Delivery Charge: $'' receipt_text_5\<close>
  \<open>clean ''<p>Delivery Charge: $'' receipt_text_6\<close>
  \<open>clean ''<p>Delivery Charge: $'' receipt_text_7\<close>
  \<open>clean ''<p>Delivery Charge: $'' receipt_text_8\<close>
  \<open>clean ''<p>Delivery Charge: $'' receipt_text_9\<close>
  \<open>clean ''<p>Delivery Charge: $'' receipt_text_10\<close>
  \<open>clean ''<p>Delivery Charge: $'' receipt_text_11\<close>
  unfolding receipt_text_defs by ((intro clean_append)?; simp)+

lemma receipt_texts_occs_del:
  \<open>occs ''<p>Delivery Charge: $'' receipt_text_0 = 0\<close>
  \<open>occs ''<p>Delivery Charge: $'' receipt_text_1 = 0\<close>
  \<open>occs ''<p>Delivery Charge: $'' receipt_text_2 = 0\<close>
  \<open>occs ''<p>Delivery Charge: $'' receipt_text_3 = 0\<close>
  \<open>occs ''<p>Delivery Charge: $'' receipt_text_4 = 0\<close>
  \<open>occs ''<p>Delivery Charge: $'' receipt_text_5 = 0\<close>
  \<open>occs ''<p>Delivery Charge: $'' receipt_text_6 = 0\<close>
  \<open>occs ''<p>Delivery Charge: $'' receipt_text_7 = 0\<close>
  \<open>occs ''<p>Delivery Charge: $'' receipt_text_8 = 0\<close>
  \<open>occs ''<p>Delivery Charge: $'' receipt_text_9 = 0\<close>
  \<open>occs ''<p>Delivery Charge: $'' receipt_text_10 = 0\<close>
  \<open>occs ''<p>Delivery Charge: $'' receipt_text_11 = 0\<close>
  unfolding receipt_text_defs by (simp_all add: occs_clean_append del: append.simps)

lemmas receipt_texts_clean =
  receipt_texts_clean_addr receipt_texts_clean_tr receipt_texts_clean_sub receipt_texts_clean_del

lemmas receipt_texts_occs =
  receipt_texts_occs_addr receipt_texts_occs_tr receipt_texts_occs_sub receipt_texts_occs_del

text \<open>A text that starts with \<open><\<close> does not start inside a plain text.\<close>

lemma occs_plain_skip:
  "plain f \<Longrightarrow> occs (CHR ''<'' # n) (f @ b) = occs (CHR ''<'' # n) b"
  by (induction f) (auto simp: plain_def)

lemma occs_pos_iff: "n \<noteq> [] \<Longrightarrow> 0 < occs n h \<longleftrightarrow> sublist n h"
  by (induction h) (auto simp: sublist_Cons_right)

lemma is_digit_not_lt: "is_digit c \<Longrightarrow> c \<noteq> CHR ''<''"
  by (auto simp: is_digit_def)

lemma plain_show_nat: "plain (show_nat n)"
  using show_nat_digits [of n] is_digit_not_lt by (auto simp: plain_def)

lemma plain_toFixed2:
  assumes "plain_runtime rt"
  shows "plain (toFixed2 rt x)"
proof (cases x)
  case (Fin a)
  have d: "CHR ''<'' \<noteq> digit_char k" if "k < 10" for k
    by (rule not_sym) (rule is_digit_not_lt [OF digit_char_props(1) [OF that]])
  have s: "CHR ''<'' \<notin> set (show_nat k)" for k
    using plain_show_nat [of k] by (simp add: plain_def)
  have n: "CHR ''<'' \<notin> set (Number_toString rt b)" for b
    using assms by (simp add: plain_runtime_def plain_def)
  show ?thesis
    unfolding toFixed2_def Fin plain_def Let_def
    by (simp add: d [OF two_digit_bounds(1)] d [OF two_digit_bounds(2)] s n)
qed (simp_all add: toFixed2_def plain_def)

lemma plain_num_toString:
  assumes "plain_runtime rt"
  shows "plain (num_toString rt x)"
  using assms by (cases x) (simp_all add: plain_runtime_def plain_def)

lemma plain_slice_last: "plain s \<Longrightarrow> plain (slice_last k s)"
  by (auto simp: plain_def slice_last_def dest: in_set_dropD)

lemma plain_type: "plain (if p then ''Pickup'' else ''Delivery'')"
  by (simp add: plain_def)

text \<open>The rows of the items: each one holds one \<open><tr>\<close> and no other marked line.\<close>

lemma occs_rows:
  assumes rt: "plain_runtime rt"
  shows "(\<forall>item \<in> set its. plain (name item)) \<Longrightarrow>
     occs ''<tr>'' (concat (map (item_row rt) its) @ b) = length its + occs ''<tr>'' b
     \<and> occs ''<strong>Address:</strong>'' (concat (map (item_row rt) its) @ b)
         = occs ''<strong>Address:</strong>'' b
     \<and> occs ''<p>Subtotal: $'' (concat (map (item_row rt) its) @ b) = occs ''<p>Subtotal: $'' b
     \<and> occs ''<p>Delivery Charge: $'' (concat (map (item_row rt) its) @ b)
         = occs ''<p>Delivery Charge: $'' b"
proof (induction its)
  case Nil
  then show ?case by simp
next
  case (Cons a its)
  then show ?case
    by (simp add: item_row_def occs_plain_skip plain_toFixed2 [OF rt] plain_num_toString [OF rt])
qed

lemma occs_address_line:
  assumes "case address order of Some a \<Rightarrow> plain a | None \<Rightarrow> True"
  shows "occs ''<strong>Address:</strong>'' (address_line order @ b) =
           (if deliveryType order = ''delivery'' \<and> (\<exists>a. address order = Some a \<and> a \<noteq> [])
            then 1 else 0) + occs ''<strong>Address:</strong>'' b"
    and "occs ''<tr>'' (address_line order @ b) = occs ''<tr>'' b"
    and "occs ''<p>Subtotal: $'' (address_line order @ b) = occs ''<p>Subtotal: $'' b"
    and "occs ''<p>Delivery Charge: $'' (address_line order @ b) = occs ''<p>Delivery Charge: $'' b"
  using assms
  by (simp_all add: address_line_def occs_plain_skip split: option.splits)

lemma occs_totals_lines:
  assumes rt: "plain_runtime rt"
  shows "occs ''<p>Subtotal: $'' (totals_lines rt order @ b) =
           (if \<exists>c. deliveryCharge order = Some c \<and> js_gt c (Fin 0) then 1 else 0)
           + occs ''<p>Subtotal: $'' b"
    and "occs ''<p>Delivery Charge: $'' (totals_lines rt order @ b) =
           (if \<exists>c. deliveryCharge order = Some c \<and> js_gt c (Fin 0) then 1 else 0)
           + occs ''<p>Delivery Charge: $'' b"
    and "occs ''<tr>'' (totals_lines rt order @ b) = occs ''<tr>'' b"
    and "occs ''<strong>Address:</strong>'' (totals_lines rt order @ b)
           = occs ''<strong>Address:</strong>'' b"
  by (simp_all add: totals_lines_def occs_plain_skip plain_toFixed2 [OF rt] split: option.splits)

text \<open>The number of marked lines of a receipt whose values are plain texts.\<close>

lemma occs_receipt:
  assumes rt: "plain_runtime rt" and ord: "plain_order order"
  shows "occs ''<strong>Address:</strong>'' (generateOrderPDF rt order) =
           (if deliveryType order = ''delivery'' \<and> (\<exists>a. address order = Some a \<and> a \<noteq> [])
            then 1 else 0)"
    and "occs ''<p>Subtotal: $'' (generateOrderPDF rt order) =
           (if \<exists>c. deliveryCharge order = Some c \<and> js_gt c (Fin 0) then 1 else 0)"
    and "occs ''<p>Delivery Charge: $'' (generateOrderPDF rt order) =
           (if \<exists>c. deliveryCharge order = Some c \<and> js_gt c (Fin 0) then 1 else 0)"
    and "occs ''<tr>'' (generateOrderPDF rt order) = 1 + length (items order)"
proof -
  from ord have fields: "plain (order_id order)" "plain (customerName order)"
    "plain (customerEmail order)" "plain (orderStatus order)"
    and addr: "case address order of Some a \<Rightarrow> plain a | None \<Rightarrow> True"
    and names: "\<forall>item \<in> set (items order). plain (name item)"
    by (simp_all add: plain_order_def)
  from rt have stamp: "plain (toLocaleString rt (createdAt order))"
    by (simp add: plain_runtime_def)
  note rows = occs_rows [OF rt names]
  note steps = occs_clean_append receipt_texts_clean receipt_texts_occs occs_plain_skip
    fields plain_slice_last stamp plain_type plain_toFixed2 [OF rt]
    occs_address_line [OF addr] occs_totals_lines [OF rt] rows
  show "occs ''<strong>Address:</strong>'' (generateOrderPDF rt order) =
           (if deliveryType order = ''delivery'' \<and> (\<exists>a. address order = Some a \<and> a \<noteq> [])
            then 1 else 0)"
    unfolding generateOrderPDF_def by (simp only: steps; simp)
  show "occs ''<p>Subtotal: $'' (generateOrderPDF rt order) =
           (if \<exists>c. deliveryCharge order = Some c \<and> js_gt c (Fin 0) then 1 else 0)"
    unfolding generateOrderPDF_def by (simp only: steps; simp)
  show "occs ''<p>Delivery Charge: $'' (generateOrderPDF rt order) =
           (if \<exists>c. deliveryCharge order = Some c \<and> js_gt c (Fin 0) then 1 else 0)"
    unfolding generateOrderPDF_def by (simp only: steps; simp)
  show "occs ''<tr>'' (generateOrderPDF rt order) = 1 + length (items order)"
    unfolding generateOrderPDF_def by (simp only: steps; simp)
qed

text \<open>The lines themselves, with the values that they show.\<close>

lemma sublist_skip: "sublist n b \<Longrightarrow> sublist n (a @ b)"
  using sublist_order.order.trans [OF _ sublist_append_leftI] .

lemma sublist_parts:
  "sublist (address_line order) (generateOrderPDF rt order)"
  "sublist (totals_lines rt order) (generateOrderPDF rt order)"
  "sublist (concat (map (item_row rt) (items order))) (generateOrderPDF rt order)"
  "sublist (customerName order) (generateOrderPDF rt order)"
  unfolding generateOrderPDF_def
  by (rule sublist_append_rightI | rule sublist_skip)+

lemma sublist_row:
  assumes "item \<in> set its"
  shows "sublist (item_row rt item) (concat (map (item_row rt) its))"
proof -
  from assms obtain xs ys where "its = xs @ item # ys"
    by (auto dest: split_list)
  then show ?thesis
    by (simp add: sublist_appendI)
qed

lemma sublist_lines:
  "deliveryType order = ''delivery'' \<Longrightarrow> address order = Some a \<Longrightarrow> a \<noteq> [] \<Longrightarrow>
     sublist (''<p><strong>Address:</strong> '' @ a @ ''</p>'') (generateOrderPDF rt order)"
  "deliveryCharge order = Some c \<Longrightarrow> js_gt c (Fin 0) \<Longrightarrow>
     sublist (''<p>Subtotal: $'' @ toFixed2 rt (js_sub (totalAmount order) c) @ ''</p>'')
       (generateOrderPDF rt order)"
  "deliveryCharge order = Some c \<Longrightarrow> js_gt c (Fin 0) \<Longrightarrow>
     sublist (''<p>Delivery Charge: $'' @ toFixed2 rt c @ ''</p>'') (generateOrderPDF rt order)"
  "item \<in> set (items order) \<Longrightarrow> sublist (item_row rt item) (generateOrderPDF rt order)"
proof -
  show "sublist (''<p><strong>Address:</strong> '' @ a @ ''</p>'') (generateOrderPDF rt order)"
    if "deliveryType order = ''delivery''" "address order = Some a" "a \<noteq> []"
  proof -
    from that have "address_line order = ''<p><strong>Address:</strong> '' @ a @ ''</p>''"
      by (simp add: address_line_def)
    with sublist_parts(1) [of order rt] show ?thesis by simp
  qed
  show "sublist (''<p>Subtotal: $'' @ toFixed2 rt (js_sub (totalAmount order) c) @ ''</p>'')
       (generateOrderPDF rt order)"
    if "deliveryCharge order = Some c" "js_gt c (Fin 0)"
  proof -
    from that have "totals_lines rt order =
        (''<p>Subtotal: $'' @ toFixed2 rt (js_sub (totalAmount order) c) @ ''</p>'') @
        (''\<newline>    <p>Delivery Charge: $'' @ toFixed2 rt c @ ''</p>'')"
      by (simp add: totals_lines_def)
    then have "sublist (''<p>Subtotal: $'' @ toFixed2 rt (js_sub (totalAmount order) c) @ ''</p>'')
        (totals_lines rt order)"
      by (simp only: sublist_append_rightI)
    then show ?thesis
      using sublist_parts(2) [of rt order] by (rule sublist_order.order.trans)
  qed
  show "sublist (''<p>Delivery Charge: $'' @ toFixed2 rt c @ ''</p>'') (generateOrderPDF rt order)"
    if "deliveryCharge order = Some c" "js_gt c (Fin 0)"
  proof -
    from that have "totals_lines rt order =
        (''<p>Subtotal: $'' @ toFixed2 rt (js_sub (totalAmount order) c) @ ''</p>\<newline>    '') @
        (''<p>Delivery Charge: $'' @ toFixed2 rt c @ ''</p>'')"
      by (simp add: totals_lines_def)
    then have "sublist (''<p>Delivery Charge: $'' @ toFixed2 rt c @ ''</p>'') (totals_lines rt order)"
      by (simp only: sublist_append_leftI)
    then show ?thesis
      using sublist_parts(2) [of rt order] by (rule sublist_order.order.trans)
  qed
  show "sublist (item_row rt item) (generateOrderPDF rt order)" if "item \<in> set (items order)"
    using sublist_row [OF that] sublist_parts(3) [of rt order]
    by (rule sublist_order.order.trans)
qed

text \<open>
  C9. The receipt is a function of the order (and of the runtime, which gives the text of
  the date in the locale of the process). For an order whose texts are plain, that is,
  hold no \<open><\<close> (the values are put into the document as they are):
  the address line is in the receipt exactly when the delivery type is \<open>delivery\<close> and
  the address is given, and it shows the address; the subtotal line and the delivery-charge
  line are in the receipt exactly when the delivery charge is greater than 0, and they show
  the total amount less the delivery charge, and the delivery charge; the table has the
  row of its head and one row for each item; the row of each item is in the receipt, and
  its last cell shows the price times the quantity.
\<close>

theorem receipt_lines:
  assumes "plain_runtime rt" and "plain_order order"
  shows "(sublist ''<strong>Address:</strong>'' (generateOrderPDF rt order) \<longleftrightarrow>
            deliveryType order = ''delivery'' \<and> (\<exists>a. address order = Some a \<and> a \<noteq> []))
    \<and> (\<forall>a. deliveryType order = ''delivery'' \<and> address order = Some a \<and> a \<noteq> [] \<longrightarrow>
          sublist (''<p><strong>Address:</strong> '' @ a @ ''</p>'') (generateOrderPDF rt order))
    \<and> (sublist ''<p>Subtotal: $'' (generateOrderPDF rt order) \<longleftrightarrow>
          (\<exists>c. deliveryCharge order = Some c \<and> js_gt c (Fin 0)))
    \<and> (sublist ''<p>Delivery Charge: $'' (generateOrderPDF rt order) \<longleftrightarrow>
          (\<exists>c. deliveryCharge order = Some c \<and> js_gt c (Fin 0)))
    \<and> (\<forall>d. deliveryCharge order = Some (Fin d) \<longrightarrow>
          (sublist ''<p>Subtotal: $'' (generateOrderPDF rt order) \<longleftrightarrow> 0 < d)
          \<and> (sublist ''<p>Delivery Charge: $'' (generateOrderPDF rt order) \<longleftrightarrow> 0 < d))
    \<and> (deliveryCharge order = None \<longrightarrow>
          \<not> sublist ''<p>Subtotal: $'' (generateOrderPDF rt order)
          \<and> \<not> sublist ''<p>Delivery Charge: $'' (generateOrderPDF rt order))
    \<and> (\<forall>c. deliveryCharge order = Some c \<and> js_gt c (Fin 0) \<longrightarrow>
          sublist (''<p>Subtotal: $'' @ toFixed2 rt (js_sub (totalAmount order) c) @ ''</p>'')
            (generateOrderPDF rt order)
          \<and> sublist (''<p>Delivery Charge: $'' @ toFixed2 rt c @ ''</p>'')
            (generateOrderPDF rt order))
    \<and> (\<forall>t d. totalAmount order = Fin t \<and> deliveryCharge order = Some (Fin d) \<and> 0 < d \<longrightarrow>
          sublist (''<p>Subtotal: $'' @ toFixed2 rt (Fin (t - d)) @ ''</p>'')
            (generateOrderPDF rt order)
          \<and> sublist (''<p>Delivery Charge: $'' @ toFixed2 rt (Fin d) @ ''</p>'')
            (generateOrderPDF rt order))
    \<and> occs ''<tr>'' (generateOrderPDF rt order) = 1 + length (items order)
    \<and> (\<forall>item \<in> set (items order).
          sublist (item_row rt item) (generateOrderPDF rt order)
          \<and> suffix (''<td>$'' @ toFixed2 rt (js_mul (price item) (quantity item)) @
                     ''</td>\<newline>        </tr>\<newline>      '')
              (item_row rt item)
          \<and> (\<forall>p q. price item = Fin p \<and> quantity item = Fin q \<longrightarrow>
                suffix (''<td>$'' @ toFixed2 rt (Fin (p * q)) @
                        ''</td>\<newline>        </tr>\<newline>      '')
                  (item_row rt item)))"
proof -
  note n = occs_receipt [OF assms]
  have address: "sublist ''<strong>Address:</strong>'' (generateOrderPDF rt order) \<longleftrightarrow>
      deliveryType order = ''delivery'' \<and> (\<exists>a. address order = Some a \<and> a \<noteq> [])"
    using occs_pos_iff [of "''<strong>Address:</strong>''" "generateOrderPDF rt order"]
    unfolding n(1) by (simp split: if_splits)
  have subtotal: "sublist ''<p>Subtotal: $'' (generateOrderPDF rt order) \<longleftrightarrow>
      (\<exists>c. deliveryCharge order = Some c \<and> js_gt c (Fin 0))"
    using occs_pos_iff [of "''<p>Subtotal: $''" "generateOrderPDF rt order"]
    unfolding n(2) by (simp split: if_splits)
  have charge: "sublist ''<p>Delivery Charge: $'' (generateOrderPDF rt order) \<longleftrightarrow>
      (\<exists>c. deliveryCharge order = Some c \<and> js_gt c (Fin 0))"
    using occs_pos_iff [of "''<p>Delivery Charge: $''" "generateOrderPDF rt order"]
    unfolding n(3) by (simp split: if_splits)
  have finite: "\<forall>d. deliveryCharge order = Some (Fin d) \<longrightarrow>
      (sublist ''<p>Subtotal: $'' (generateOrderPDF rt order) \<longleftrightarrow> 0 < d)
      \<and> (sublist ''<p>Delivery Charge: $'' (generateOrderPDF rt order) \<longleftrightarrow> 0 < d)"
    unfolding subtotal charge by (simp add: js_gt_def)
  have none: "deliveryCharge order = None \<longrightarrow>
      \<not> sublist ''<p>Subtotal: $'' (generateOrderPDF rt order)
      \<and> \<not> sublist ''<p>Delivery Charge: $'' (generateOrderPDF rt order)"
    unfolding subtotal charge by simp
  have last_cell: "suffix (''<td>$'' @ toFixed2 rt (js_mul (price item) (quantity item)) @
        ''</td>\<newline>        </tr>\<newline>      '') (item_row rt item)" for item
    by (rule suffixI [of _ "''\<newline>        <tr>\<newline>          <td>'' @ name item @
          ''</td>\<newline>          <td>'' @ num_toString rt (quantity item) @
          ''</td>\<newline>          <td>$'' @ toFixed2 rt (price item) @
          ''</td>\<newline>          ''"])
       (simp add: item_row_def)
  have product: "\<forall>p q. price item = Fin p \<and> quantity item = Fin q \<longrightarrow>
      suffix (''<td>$'' @ toFixed2 rt (Fin (p * q)) @
              ''</td>\<newline>        </tr>\<newline>      '') (item_row rt item)" for item
  proof (intro allI impI)
    fix p q
    assume "price item = Fin p \<and> quantity item = Fin q"
    then have "js_mul (price item) (quantity item) = Fin (p * q)" by simp
    with last_cell [of item]
    show "suffix (''<td>$'' @ toFixed2 rt (Fin (p * q)) @
              ''</td>\<newline>        </tr>\<newline>      '') (item_row rt item)"
      by simp
  qed
  have address_line: "\<forall>a. deliveryType order = ''delivery'' \<and> address order = Some a \<and> a \<noteq> [] \<longrightarrow>
      sublist (''<p><strong>Address:</strong> '' @ a @ ''</p>'') (generateOrderPDF rt order)"
    using sublist_lines(1) by blast
  have totals: "\<forall>c. deliveryCharge order = Some c \<and> js_gt c (Fin 0) \<longrightarrow>
      sublist (''<p>Subtotal: $'' @ toFixed2 rt (js_sub (totalAmount order) c) @ ''</p>'')
        (generateOrderPDF rt order)
      \<and> sublist (''<p>Delivery Charge: $'' @ toFixed2 rt c @ ''</p>'')
        (generateOrderPDF rt order)"
    using sublist_lines(2,3) by blast
  have difference: "\<forall>t d. totalAmount order = Fin t \<and> deliveryCharge order = Some (Fin d)
        \<and> 0 < d \<longrightarrow>
      sublist (''<p>Subtotal: $'' @ toFixed2 rt (Fin (t - d)) @ ''</p>'')
        (generateOrderPDF rt order)
      \<and> sublist (''<p>Delivery Charge: $'' @ toFixed2 rt (Fin d) @ ''</p>'')
        (generateOrderPDF rt order)"
  proof (intro allI impI)
    fix t d
    assume a: "totalAmount order = Fin t \<and> deliveryCharge order = Some (Fin d) \<and> 0 < d"
    then have "js_gt (Fin d) (Fin 0)" and "js_sub (totalAmount order) (Fin d) = Fin (t - d)"
      by (simp_all add: js_gt_def js_sub_def)
    with a sublist_lines(2,3) [of order "Fin d" rt]
    show "sublist (''<p>Subtotal: $'' @ toFixed2 rt (Fin (t - d)) @ ''</p>'')
        (generateOrderPDF rt order)
      \<and> sublist (''<p>Delivery Charge: $'' @ toFixed2 rt (Fin d) @ ''</p>'')
        (generateOrderPDF rt order)"
      by simp
  qed
  have rows: "\<forall>item \<in> set (items order).
      sublist (item_row rt item) (generateOrderPDF rt order)
      \<and> suffix (''<td>$'' @ toFixed2 rt (js_mul (price item) (quantity item)) @
                 ''</td>\<newline>        </tr>\<newline>      '')
          (item_row rt item)
      \<and> (\<forall>p q. price item = Fin p \<and> quantity item = Fin q \<longrightarrow>
            suffix (''<td>$'' @ toFixed2 rt (Fin (p * q)) @
                    ''</td>\<newline>        </tr>\<newline>      '')
              (item_row rt item))"
    using sublist_lines(4) last_cell product by blast
  from address address_line subtotal charge finite none totals difference n(4) rows
  show ?thesis
    by (intro conjI)
qed

lemma toFixed2_examples:
  "toFixed2 rt (Fin 12) = ''12.00''" "toFixed2 rt (Fin 3) = ''3.00''"
  "toFixed2 rt (Fin 24) = ''24.00''" "toFixed2 rt (Fin (5 / 2)) = ''2.50''"
  "toFixed2 rt (Fin (15 / 2)) = ''7.50''" "toFixed2 rt (Fin (63 / 2)) = ''31.50''"
proof -
  have "\<lfloor>(2401::rat) / 2\<rfloor> = 1200" "\<lfloor>(601::rat) / 2\<rfloor> = 300" "\<lfloor>(4801::rat) / 2\<rfloor> = 2400"
    "\<lfloor>(501::rat) / 2\<rfloor> = 250" "\<lfloor>(1501::rat) / 2\<rfloor> = 750" "\<lfloor>(6301::rat) / 2\<rfloor> = 3150"
    by (rule floor_unique; simp)+
  then show "toFixed2 rt (Fin 12) = ''12.00''" "toFixed2 rt (Fin 3) = ''3.00''"
    "toFixed2 rt (Fin 24) = ''24.00''" "toFixed2 rt (Fin (5 / 2)) = ''2.50''"
    "toFixed2 rt (Fin (15 / 2)) = ''7.50''" "toFixed2 rt (Fin (63 / 2)) = ''31.50''"
    by (simp_all add: toFixed2_def Let_def show_nat.simps [of 12] show_nat.simps [of "Suc 0"]
        show_nat.simps [of 3] show_nat.simps [of 24] show_nat.simps [of 2] show_nat.simps [of 7]
        show_nat.simps [of 31] digit_char_def)
qed

lemma sample_rows:
  "item_row sample_runtime \<lparr> name = ''Margherita'', quantity = Fin 2, price = Fin 12 \<rparr> =
     ''\<newline>        <tr>\<newline>          <td>Margherita</td>\<newline>          <td>2</td>\<newline>          <td>$12.00</td>\<newline>          <td>$24.00</td>\<newline>        </tr>\<newline>      ''"
  "item_row sample_runtime \<lparr> name = ''Cola'', quantity = Fin 3, price = Fin (5 / 2) \<rparr> =
     ''\<newline>        <tr>\<newline>          <td>Cola</td>\<newline>          <td>3</td>\<newline>          <td>$2.50</td>\<newline>          <td>$7.50</td>\<newline>        </tr>\<newline>      ''"
  by (simp_all add: item_row_def toFixed2_examples sample_runtime_def show_nat.simps [of 2]
      show_nat.simps [of 3] digit_char_def)

theorem receipt_lines_witness:
  "sublist ''<p><strong>Address:</strong> 1 Main St</p>''
     (generateOrderPDF sample_runtime sample_receipt_order)
   \<and> sublist ''<p>Subtotal: $31.50</p>'' (generateOrderPDF sample_runtime sample_receipt_order)
   \<and> sublist ''<p>Delivery Charge: $3.00</p>''
       (generateOrderPDF sample_runtime sample_receipt_order)
   \<and> occs ''<tr>'' (generateOrderPDF sample_runtime sample_receipt_order) = 3
   \<and> sublist ''\<newline>        <tr>\<newline>          <td>Margherita</td>\<newline>          <td>2</td>\<newline>          <td>$12.00</td>\<newline>          <td>$24.00</td>\<newline>        </tr>\<newline>      ''
       (generateOrderPDF sample_runtime sample_receipt_order)
   \<and> sublist ''\<newline>        <tr>\<newline>          <td>Cola</td>\<newline>          <td>3</td>\<newline>          <td>$2.50</td>\<newline>          <td>$7.50</td>\<newline>        </tr>\<newline>      ''
       (generateOrderPDF sample_runtime sample_receipt_order)
   \<and> \<not> sublist ''<strong>Address:</strong>''
         (generateOrderPDF sample_runtime (sample_order ''Delivered'' ''pickup'' 12))
   \<and> \<not> sublist ''<p>Subtotal: $''
         (generateOrderPDF sample_runtime (sample_order ''Delivered'' ''pickup'' 12))"
proof -
  have rt: "plain_runtime sample_runtime"
    by (simp add: plain_runtime_def sample_runtime_def plain_show_nat)
  have delivered: "plain_order sample_receipt_order"
    by (simp add: plain_order_def sample_receipt_order_def sample_order_def plain_def)
  have collected: "plain_order (sample_order ''Delivered'' ''pickup'' 12)"
    by (simp add: plain_order_def sample_order_def plain_def)
  have fields: "deliveryType sample_receipt_order = ''delivery''"
    "address sample_receipt_order = Some ''1 Main St''"
    "deliveryCharge sample_receipt_order = Some (Fin 3)"
    "totalAmount sample_receipt_order = Fin (69 / 2)"
    "items sample_receipt_order =
       [\<lparr> name = ''Margherita'', quantity = Fin 2, price = Fin 12 \<rparr>,
        \<lparr> name = ''Cola'', quantity = Fin 3, price = Fin (5 / 2) \<rparr>]"
    by (simp_all add: sample_receipt_order_def sample_order_def)
  have fields': "deliveryType (sample_order ''Delivered'' ''pickup'' 12) = ''pickup''"
    "deliveryCharge (sample_order ''Delivered'' ''pickup'' 12) = None"
    by (simp_all add: sample_order_def)
  note d = receipt_lines [OF rt delivered]
  note d1 = d [THEN conjunct2]
  note d2 = d1 [THEN conjunct2]
  note d3 = d2 [THEN conjunct2]
  note d4 = d3 [THEN conjunct2]
  note d5 = d4 [THEN conjunct2]
  note d6 = d5 [THEN conjunct2]
  note d7 = d6 [THEN conjunct2]
  note d8 = d7 [THEN conjunct2]
  note d9 = d8 [THEN conjunct2]
  note c = receipt_lines [OF rt collected]
  from d1 [THEN conjunct1, rule_format, of "''1 Main St''"] fields(1,2)
  have address: "sublist ''<p><strong>Address:</strong> 1 Main St</p>''
     (generateOrderPDF sample_runtime sample_receipt_order)"
    by simp
  from d7 [THEN conjunct1, rule_format, of "69 / 2" 3] fields(3,4)
  have totals: "sublist ''<p>Subtotal: $31.50</p>''
      (generateOrderPDF sample_runtime sample_receipt_order)"
    "sublist ''<p>Delivery Charge: $3.00</p>''
      (generateOrderPDF sample_runtime sample_receipt_order)"
    by (simp_all add: toFixed2_examples)
  from d8 [THEN conjunct1] fields(5)
  have count: "occs ''<tr>'' (generateOrderPDF sample_runtime sample_receipt_order) = 3"
    by simp
  from d9 fields(5)
  have rows: "sublist (item_row sample_runtime
        \<lparr> name = ''Margherita'', quantity = Fin 2, price = Fin 12 \<rparr>)
      (generateOrderPDF sample_runtime sample_receipt_order)"
    "sublist (item_row sample_runtime
        \<lparr> name = ''Cola'', quantity = Fin 3, price = Fin (5 / 2) \<rparr>)
      (generateOrderPDF sample_runtime sample_receipt_order)"
    by simp_all
  from c [THEN conjunct1] fields'(1)
  have no_address: "\<not> sublist ''<strong>Address:</strong>''
      (generateOrderPDF sample_runtime (sample_order ''Delivered'' ''pickup'' 12))"
    by simp
  from c [THEN conjunct2, THEN conjunct2, THEN conjunct1] fields'(2)
  have no_subtotal: "\<not> sublist ''<p>Subtotal: $''
      (generateOrderPDF sample_runtime (sample_order ''Delivered'' ''pickup'' 12))"
    by simp
  from address totals count rows [unfolded sample_rows] no_address no_subtotal
  show ?thesis
    by (intro conjI)
qed

text \<open>
  The values of an order are put into the receipt as they are. An order for pickup whose
  customer name is the text of an address line has that line in its receipt.
\<close>

theorem receipt_address_line_for_pickup:
  "deliveryType sample_markup_order = ''pickup''
   \<and> address sample_markup_order = None
   \<and> sublist ''<p><strong>Address:</strong> 1 Main St</p>''
       (generateOrderPDF sample_runtime sample_markup_order)
   \<and> sublist ''<strong>Address:</strong>'' (generateOrderPDF sample_runtime sample_markup_order)"
proof -
  have name: "customerName sample_markup_order = ''<p><strong>Address:</strong> 1 Main St</p>''"
    and kind: "deliveryType sample_markup_order = ''pickup''"
    and none: "address sample_markup_order = None"
    by (simp_all add: sample_markup_order_def sample_order_def)
  have line: "sublist ''<p><strong>Address:</strong> 1 Main St</p>''
      (generateOrderPDF sample_runtime sample_markup_order)"
    using sublist_parts(4) [of sample_markup_order sample_runtime] unfolding name .
  have "sublist ''<strong>Address:</strong>'' ''<p><strong>Address:</strong> 1 Main St</p>''"
    using sublist_appendI [of "''<strong>Address:</strong>''" "''<p>''" "'' 1 Main St</p>''"]
    by simp
  from this line have "sublist ''<strong>Address:</strong>''
      (generateOrderPDF sample_runtime sample_markup_order)"
    by (rule sublist_order.order.trans)
  with kind none line show ?thesis
    by (intro conjI)
qed

end
